theory Spec2Isabelle
  imports Complex_Main
begin

section \<open>Python values used by the plotting scripts\<close>

text \<open>
  The scripts are Python programs over the file system, pandas tables and float64 numbers.
  Exceptions are values: a computation that may raise returns \<open>py_exn + 'a\<close>, with
  \<open>Inl\<close> the raised exception. Every constructor of \<open>py_exn\<close> is a subclass of Python's
  \<open>Exception\<close> and stands for that class with its subclasses that have no constructor of
  their own: \<open>ValueError\<close> is also pandas' \<open>EmptyDataError\<close> and \<open>ParserError\<close>, and
  \<open>OSError\<close> is every operating-system error except \<open>FileNotFoundError\<close>, the only
  class that the handlers of the scripts single out.
\<close>

datatype py_exn =
  FileNotFoundError | ValueError | TypeError | IndexError | KeyError | OSError | RuntimeError

text \<open>
  A float64 value: a finite number (given by its exact rational value; \<open>Fin 0\<close> is \<open>+0.0\<close>),
  negative zero, the two infinities, or not-a-number.
\<close>

datatype pyfloat = Fin rat | NegZero | PInf | NInf | NaN

subsection \<open>Float64 arithmetic\<close>

text \<open>
  \<open>ilog2 a\<close> is the binary exponent of a positive number: \<open>2 powi ilog2 a \<le> a < 2 powi (ilog2 a + 1)\<close>.
\<close>

function ilog2 :: "rat \<Rightarrow> int" where
  "ilog2 a =
     (if a \<le> 0 then 0
      else if 2 \<le> a then ilog2 (a / 2) + 1
      else if a < 1 then ilog2 (a * 2) - 1
      else 0)"
  by pat_completeness auto
termination
proof (relation "measure (\<lambda>a. nat \<lceil>a\<rceil> + 2 * nat \<lceil>1 / a\<rceil>)")
  show "wf (measure (\<lambda>a::rat. nat \<lceil>a\<rceil> + 2 * nat \<lceil>1 / a\<rceil>))" by simp
next
  fix a :: rat
  assume a: "\<not> a \<le> 0" "2 \<le> a"
  have "\<lceil>a / 2\<rceil> < \<lceil>a\<rceil>" using a by linarith
  moreover have "\<lceil>1 / (a / 2)\<rceil> \<le> \<lceil>1 / a\<rceil>"
  proof -
    have "1 / (a / 2) \<le> 1" using a by simp
    then have "\<lceil>1 / (a / 2)\<rceil> \<le> 1" by (simp add: ceiling_le_one)
    moreover have "0 < 1 / a" using a by simp
    then have "1 \<le> \<lceil>1 / a\<rceil>" by linarith
    ultimately show ?thesis by linarith
  qed
  moreover have "0 < \<lceil>a\<rceil>" using a by linarith
  ultimately show "(a / 2, a) \<in> measure (\<lambda>a. nat \<lceil>a\<rceil> + 2 * nat \<lceil>1 / a\<rceil>)"
    by simp linarith
next
  fix a :: rat
  assume a: "\<not> a \<le> 0" "\<not> 2 \<le> a" "a < 1"
  have half: "y / 2 \<le> c - 1" if "2 \<le> c" "y \<le> c" for c y :: rat
    using that by linarith
  have c1: "\<lceil>a\<rceil> = 1" using a by linarith
  have "\<lceil>a * 2\<rceil> \<le> 2" using a by linarith
  moreover have "\<lceil>1 / (a * 2)\<rceil> < \<lceil>1 / a\<rceil>"
  proof -
    have y: "1 < 1 / a" using a by simp
    then have c: "2 \<le> \<lceil>1 / a\<rceil>" by linarith
    then have "(2::rat) \<le> of_int \<lceil>1 / a\<rceil>" by (metis of_int_le_iff of_int_numeral)
    moreover have "1 / a \<le> of_int \<lceil>1 / a\<rceil>" by (rule le_of_int_ceiling)
    ultimately have "1 / a / 2 \<le> of_int \<lceil>1 / a\<rceil> - 1" by (rule half)
    then have "1 / a / 2 \<le> of_int (\<lceil>1 / a\<rceil> - 1)" by (simp only: of_int_diff of_int_1)
    then have h: "\<lceil>1 / a / 2\<rceil> \<le> \<lceil>1 / a\<rceil> - 1" by (rule ceiling_le)
    have e: "1 / (a * 2) = (1 / a) / 2" by simp
    show ?thesis unfolding e using h by linarith
  qed
  moreover have "0 < \<lceil>1 / (a * 2)\<rceil>"
  proof -
    have "0 < 1 / (a * 2)" using a by simp
    then show ?thesis by linarith
  qed
  ultimately show "(a * 2, a) \<in> measure (\<lambda>a. nat \<lceil>a\<rceil> + 2 * nat \<lceil>1 / a\<rceil>)"
    using c1 by simp linarith
qed

declare ilog2.simps [simp del]

definition round_half_even :: "rat \<Rightarrow> int" where
  "round_half_even y =
     (let n = \<lfloor>y\<rfloor>; r = y - of_int n
      in if r < 1 / 2 then n
         else if 1 / 2 < r then n + 1
         else if even n then n else n + 1)"

text \<open>
  \<open>fl_round x\<close> is the float64 nearest to the exact result \<open>x\<close>, ties to the even
  significand: 53 significant bits from exponent \<open>-1022\<close> up, a fixed quantum
  \<open>2 powi (-1074)\<close> below (subnormal numbers), and an infinity from \<open>2 powi 1024\<close> on.
\<close>

definition fl_round :: "rat \<Rightarrow> pyfloat" where
  "fl_round x =
     (if x = 0 then Fin 0
      else let a = \<bar>x\<bar>;
               e = max (ilog2 a) (- 1022);
               q = 2 powi (e - 52);
               m = of_int (round_half_even (a / q)) * q
           in if 2 powi 1024 \<le> m then (if 0 < x then PInf else NInf)
              else if m = 0 then (if 0 < x then Fin 0 else NegZero)
              else Fin (if 0 < x then m else - m))"

definition f_nan :: "pyfloat \<Rightarrow> bool" where
  "f_nan a = (a = NaN)"

definition f_inf :: "pyfloat \<Rightarrow> bool" where
  "f_inf a = (a = PInf \<or> a = NInf)"

definition f_zero :: "pyfloat \<Rightarrow> bool" where
  "f_zero a = (a = Fin 0 \<or> a = NegZero)"

text \<open>The sign bit, and the value of a finite number.\<close>

fun f_negative :: "pyfloat \<Rightarrow> bool" where
  "f_negative (Fin r) = (r < 0)"
| "f_negative NegZero = True"
| "f_negative NInf = True"
| "f_negative PInf = False"
| "f_negative NaN = False"

fun f_val :: "pyfloat \<Rightarrow> rat" where
  "f_val (Fin r) = r"
| "f_val _ = 0"

definition signed_zero :: "bool \<Rightarrow> pyfloat" where
  "signed_zero neg = (if neg then NegZero else Fin 0)"

definition signed_inf :: "bool \<Rightarrow> pyfloat" where
  "signed_inf neg = (if neg then NInf else PInf)"

fun f_neg :: "pyfloat \<Rightarrow> pyfloat" where
  "f_neg (Fin r) = (if r = 0 then NegZero else Fin (- r))"
| "f_neg NegZero = Fin 0"
| "f_neg PInf = NInf"
| "f_neg NInf = PInf"
| "f_neg NaN = NaN"

definition f_add :: "pyfloat \<Rightarrow> pyfloat \<Rightarrow> pyfloat" where
  "f_add a b =
     (if f_nan a \<or> f_nan b then NaN
      else if f_inf a then (if f_inf b \<and> a \<noteq> b then NaN else a)
      else if f_inf b then b
      else if a = NegZero then b
      else if b = NegZero then a
      else fl_round (f_val a + f_val b))"

definition f_sub :: "pyfloat \<Rightarrow> pyfloat \<Rightarrow> pyfloat" where
  "f_sub a b = f_add a (f_neg b)"

definition f_mul :: "pyfloat \<Rightarrow> pyfloat \<Rightarrow> pyfloat" where
  "f_mul a b =
     (if f_nan a \<or> f_nan b then NaN
      else if f_inf a \<or> f_inf b
           then (if f_zero a \<or> f_zero b then NaN else signed_inf (f_negative a \<noteq> f_negative b))
      else if f_zero a \<or> f_zero b then signed_zero (f_negative a \<noteq> f_negative b)
      else fl_round (f_val a * f_val b))"

text \<open>
  Division of numpy float64 scalars does not raise on a zero divisor: it returns an
  infinity, or not-a-number for \<open>0 / 0\<close> (with a warning on the console).
\<close>

definition f_div :: "pyfloat \<Rightarrow> pyfloat \<Rightarrow> pyfloat" where
  "f_div a b =
     (if f_nan a \<or> f_nan b then NaN
      else if f_inf a then (if f_inf b then NaN else signed_inf (f_negative a \<noteq> f_negative b))
      else if f_inf b then signed_zero (f_negative a \<noteq> f_negative b)
      else if f_zero b
           then (if f_zero a then NaN else signed_inf (f_negative a \<noteq> f_negative b))
      else if f_zero a then signed_zero (f_negative a \<noteq> f_negative b)
      else fl_round (f_val a / f_val b))"

subsection \<open>Formatting\<close>

function show_nat :: "nat \<Rightarrow> string" where
  "show_nat n =
     (if n < 10 then [char_of (48 + n)]
      else show_nat (n div 10) @ [char_of (48 + n mod 10)])"
  by pat_completeness auto
termination
  by (relation "measure id") auto

declare show_nat.simps [simp del]

definition show_int :: "int \<Rightarrow> string" where
  "show_int i = (if i < 0 then ''-'' @ show_nat (nat (- i)) else show_nat (nat i))"

text \<open>
  \<open>fmt_fixed d x\<close> is \<open>format(x, '.df')\<close>: the exact value rounded to \<open>d\<close> decimals,
  ties to even, with the sign of the float (so a small negative number prints as \<open>-0.00\<close>).
\<close>

definition fixed_digits :: "nat \<Rightarrow> rat \<Rightarrow> string" where
  "fixed_digits d r =
     (let n = nat (round_half_even (r * 10 ^ d));
          frac = show_nat (n mod 10 ^ d)
      in show_nat (n div 10 ^ d) @
         (if d = 0 then [] else ''.'' @ replicate (d - length frac) (CHR ''0'') @ frac))"

fun fmt_fixed :: "nat \<Rightarrow> pyfloat \<Rightarrow> string" where
  "fmt_fixed d (Fin r) = (if r < 0 then ''-'' else []) @ fixed_digits d \<bar>r\<bar>"
| "fmt_fixed d NegZero = ''-'' @ fixed_digits d 0"
| "fmt_fixed d PInf = ''inf''"
| "fmt_fixed d NInf = ''-inf''"
| "fmt_fixed d NaN = ''nan''"

subsection \<open>Strings\<close>

text \<open>
  A string is the list of the code points of a Python \<open>str\<close>; the type \<open>char\<close> has
  the code points below 256, so the file names of the model are the Latin-1 ones.
  \<open>py_split sep s\<close> is \<open>s.split(sep)\<close> for a non-empty
  separator: the text is scanned from the left and cut at every occurrence of \<open>sep\<close>.
\<close>

function py_split_from :: "string \<Rightarrow> string \<Rightarrow> string \<Rightarrow> string list" where
  "py_split_from sep acc s =
     (if s = [] then [acc]
      else if sep \<noteq> [] \<and> take (length sep) s = sep
           then acc # py_split_from sep [] (drop (length sep) s)
      else py_split_from sep (acc @ [hd s]) (tl s))"
  by pat_completeness auto
termination
  by (relation "measure (\<lambda>(sep, acc, s). length s)") auto

definition py_split :: "string \<Rightarrow> string \<Rightarrow> string list" where
  "py_split sep s = py_split_from sep [] s"

text \<open>
  \<open>rfind_dot s\<close> is \<open>s.rfind('.')\<close>, as an option instead of \<open>-1\<close>; \<open>stem\<close> is
  \<open>PurePath.stem\<close> on a file name: the name without its last suffix, where a leading or
  a trailing dot does not start a suffix.
\<close>

fun rfind_dot :: "string \<Rightarrow> nat option" where
  "rfind_dot [] = None"
| "rfind_dot (c # cs) =
     (case rfind_dot cs of
        Some i \<Rightarrow> Some (Suc i)
      | None \<Rightarrow> if c = CHR ''.'' then Some 0 else None)"

definition stem :: "string \<Rightarrow> string" where
  "stem nm =
     (case rfind_dot nm of
        None \<Rightarrow> nm
      | Some i \<Rightarrow> if 0 < i \<and> i < length nm - 1 then take i nm else nm)"

text \<open>
  \<open>py_int s\<close> is \<open>int(s)\<close>: surrounding whitespace is stripped, one sign is allowed,
  and the rest is a non-empty run of decimal digits in which single underscores may
  stand between two digits. Anything else raises \<open>ValueError\<close>. Below code point 256 the
  whitespace of \<open>int\<close> is tab, line feed, vertical tab, form feed, carriage return and
  space, and the two Latin-1 blanks NEL (0x85) and NBSP (0xA0); the only decimal digits
  there are \<open>0\<close> to \<open>9\<close>.
\<close>

definition is_space :: "char \<Rightarrow> bool" where
  "is_space c = ((of_char c :: nat) \<in> {9, 10, 11, 12, 13, 32, 133, 160})"

definition is_digit :: "char \<Rightarrow> bool" where
  "is_digit c = (48 \<le> (of_char c :: nat) \<and> (of_char c :: nat) \<le> 57)"

definition digit_val :: "char \<Rightarrow> nat" where
  "digit_val c = of_char c - 48"

definition strip :: "string \<Rightarrow> string" where
  "strip s = rev (dropWhile is_space (rev (dropWhile is_space s)))"

fun parse_digits :: "nat \<Rightarrow> string \<Rightarrow> nat option" where
  "parse_digits acc [] = Some acc"
| "parse_digits acc [c] = (if is_digit c then Some (acc * 10 + digit_val c) else None)"
| "parse_digits acc (c # d # ds) =
     (if is_digit c then parse_digits (acc * 10 + digit_val c) (d # ds)
      else if c = CHR ''_'' \<and> is_digit d then parse_digits (acc * 10 + digit_val d) ds
      else None)"

definition parse_unsigned :: "string \<Rightarrow> nat option" where
  "parse_unsigned u =
     (case u of
        [] \<Rightarrow> None
      | c # r \<Rightarrow> if is_digit c then parse_digits (digit_val c) r else None)"

definition py_int :: "string \<Rightarrow> py_exn + int" where
  "py_int s =
     (let t = strip s;
          neg = (t \<noteq> [] \<and> hd t = CHR ''-'');
          u = (if t \<noteq> [] \<and> (hd t = CHR ''-'' \<or> hd t = CHR ''+'') then tl t else t)
      in case parse_unsigned u of
           None \<Rightarrow> Inl ValueError
         | Some n \<Rightarrow> Inr (if neg then - int n else int n))"

section \<open>The tables and the world of the scripts\<close>

text \<open>
  One CSV file of the experiment runner: its file name and what \<open>pd.read_csv\<close> does
  on it, which is either to raise (an empty or malformed file raises a subclass of
  \<open>ValueError\<close>, an unreadable one an \<open>OSError\<close>) or to return the rows, in file order.
  The columns are \<open>Iteration\<close> and \<open>BestFitness\<close>.
\<close>

record csv_row =
  Iteration :: int
  BestFitness :: pyfloat

record conv_file =
  fname :: string
  content :: "py_exn + csv_row list"

text \<open>A row of the loaded table: the two columns of the file and the \<open>Seed\<close> column.\<close>

record data_row = csv_row +
  Seed :: int

text \<open>
  A row of the sensitivity table. Column \<open>k\<close> is \<open>K\<close>, column \<open>lambda\<close> is \<open>Lambda\<close>.
  The cells are finite floats, given by their exact values.
\<close>

record sens_row =
  K :: int
  Lambda :: rat
  MeanMakespan :: rat
  StdMakespan :: rat
  CV :: rat
  MinMakespan :: rat
  MaxMakespan :: rat

text \<open>
  What the scripts get from outside: the directory listing, the files and their
  timestamps (\<open>os.path.getctime\<close> raises on a name that cannot be examined), the
  outcome of the drawing calls and of writing a figure or a text file (\<open>Some e\<close> when
  the call raises \<open>e\<close>), and the routines of pandas and numpy that the scripts call: the
  mean and the standard deviation of a group, the mean of a column, and the sorting
  permutation behind \<open>sort_values\<close>.
\<close>

record world =
  glob_convergence :: "string \<Rightarrow> conv_file list"
  glob_sensitivity :: "string list"
  getctime :: "string \<Rightarrow> py_exn + rat"
  read_csv :: "string \<Rightarrow> py_exn + sens_row list"
  mkdir :: "py_exn option"
  plot_calls :: "data_row list \<Rightarrow> py_exn option"
  heatmap_calls :: "string \<Rightarrow> py_exn option"
  savefig :: "string \<Rightarrow> py_exn option"
  write_lines :: "string \<Rightarrow> py_exn option"
  agg_mean :: "pyfloat list \<Rightarrow> pyfloat"
  agg_std :: "pyfloat list \<Rightarrow> pyfloat"
  series_mean :: "rat list \<Rightarrow> pyfloat"
  argsort :: "rat list \<Rightarrow> nat list"

text \<open>
  How a finished script ends: an exception that reaches the top level ends the process
  with status 1 after the interpreter has printed the traceback; otherwise the status is 0.
\<close>

definition exit_status :: "py_exn + 'a \<Rightarrow> nat" where
  "exit_status r = (case r of Inl e \<Rightarrow> 1 | Inr v \<Rightarrow> 0)"

definition output_dir :: string where
  "output_dir = ''results''"

section \<open>plot\_convergence.py\<close>

text \<open>
  Progress messages on the console are not modelled. The fixed text of the reports,
  which is Chinese in the source, is not modelled either; the computed lines are.
\<close>

subsection \<open>load\_convergence\_data\<close>

definition with_seed :: "int \<Rightarrow> csv_row \<Rightarrow> data_row" where
  "with_seed s r = \<lparr>Iteration = Iteration r, BestFitness = BestFitness r, Seed = s\<rparr>"

definition convergence_pattern :: "string \<Rightarrow> string \<Rightarrow> string" where
  "convergence_pattern algorithm scale =
     ''convergence_'' @ algorithm @ ''_'' @ scale @ ''_seed*.csv''"

definition seed_text :: "conv_file \<Rightarrow> string" where
  "seed_text f = last (py_split ''seed'' (stem (fname f)))"

text \<open>
  The loop over the matched files: the seed is parsed from the name, then the file is
  read; the first name that does not parse, or the first file that cannot be read, ends
  the loop with the exception.
\<close>

fun load_files :: "conv_file list \<Rightarrow> py_exn + data_row list list" where
  "load_files [] = Inr []"
| "load_files (f # fs) =
     (case py_int (seed_text f) of
        Inl e \<Rightarrow> Inl e
      | Inr seed \<Rightarrow>
          (case content f of
             Inl e \<Rightarrow> Inl e
           | Inr df \<Rightarrow>
               (case load_files fs of
                  Inl e \<Rightarrow> Inl e
                | Inr all_data \<Rightarrow> Inr (map (with_seed seed) df # all_data))))"

text \<open>\<open>None\<close> is Python's \<open>None\<close>: no file matches the pattern.\<close>

definition load_convergence_data ::
  "world \<Rightarrow> string \<Rightarrow> string \<Rightarrow> py_exn + data_row list option" where
  "load_convergence_data w algorithm scale =
     (let files = glob_convergence w (convergence_pattern algorithm scale)
      in if files = [] then Inr None
         else case load_files files of
                Inl e \<Rightarrow> Inl e
              | Inr all_data \<Rightarrow> Inr (Some (concat all_data)))"

subsection \<open>Grouping by iteration\<close>

text \<open>\<open>py_unique\<close> is \<open>Series.unique()\<close>: the values in order of first appearance.\<close>

definition py_unique :: "'a list \<Rightarrow> 'a list" where
  "py_unique xs = rev (remdups (rev xs))"

text \<open>
  \<open>data.groupby('Iteration')['BestFitness']\<close>: one group per iteration number, in
  ascending order of the number, each with its values in table order.
\<close>

definition groupby_iteration :: "data_row list \<Rightarrow> (int \<times> pyfloat list) list" where
  "groupby_iteration data =
     map (\<lambda>i. (i, map BestFitness (filter (\<lambda>r. Iteration r = i) data)))
         (sort (remdups (map Iteration data)))"

definition group_mean :: "world \<Rightarrow> data_row list \<Rightarrow> (int \<times> pyfloat) list" where
  "group_mean w data = map (\<lambda>(i, vs). (i, agg_mean w vs)) (groupby_iteration data)"

definition group_std :: "world \<Rightarrow> data_row list \<Rightarrow> (int \<times> pyfloat) list" where
  "group_std w data = map (\<lambda>(i, vs). (i, agg_std w vs)) (groupby_iteration data)"

text \<open>The shaded band: \<open>mean_data - std_data\<close> and \<open>mean_data + std_data\<close> per iteration.\<close>

definition std_band :: "world \<Rightarrow> data_row list \<Rightarrow> (int \<times> pyfloat \<times> pyfloat) list" where
  "std_band w data =
     map (\<lambda>(i, vs). (i, f_sub (agg_mean w vs) (agg_std w vs), f_add (agg_mean w vs) (agg_std w vs)))
         (groupby_iteration data)"

subsection \<open>plot\_single\_algorithm\<close>

record figure =
  fig_file :: string
  seed_curves :: "(int list \<times> pyfloat list) list"
  mean_curve :: "(int \<times> pyfloat) list"
  band :: "(int \<times> pyfloat \<times> pyfloat) list"

definition seed_curve :: "data_row list \<Rightarrow> int \<Rightarrow> int list \<times> pyfloat list" where
  "seed_curve data seed =
     (let seed_data = filter (\<lambda>r. Seed r = seed) data
      in (map Iteration seed_data, map BestFitness seed_data))"

text \<open>
  The drawing calls on the table of one algorithm (\<open>ax.plot\<close>, \<open>ax.fill_between\<close>). On
  a table without rows (header-only files) the columns have no numeric type and
  \<open>fill_between\<close> raises \<open>TypeError\<close>; on any other table the outcome is the world's.
\<close>

definition draw_curves :: "world \<Rightarrow> data_row list \<Rightarrow> py_exn option" where
  "draw_curves w data = (if data = [] then Some TypeError else plot_calls w data)"

definition plot_single_algorithm :: "world \<Rightarrow> string \<Rightarrow> string \<Rightarrow> py_exn + figure option" where
  "plot_single_algorithm w algorithm scale =
     (case load_convergence_data w algorithm scale of
        Inl e \<Rightarrow> Inl e
      | Inr None \<Rightarrow> Inr None
      | Inr (Some data) \<Rightarrow>
          (case draw_curves w data of
             Some e \<Rightarrow> Inl e
           | None \<Rightarrow>
               (let fig = \<lparr>fig_file = output_dir @ ''/convergence_individual_'' @ algorithm @ ''_'' @ scale @ ''.png'',
                           seed_curves = map (seed_curve data) (py_unique (map Seed data)),
                           mean_curve = group_mean w data,
                           band = std_band w data\<rparr>
                in case savefig w (fig_file fig) of
                     Some e \<Rightarrow> Inl e
                   | None \<Rightarrow> Inr (Some fig))))"

subsection \<open>plot\_comparison\<close>

record curve =
  c_label :: string
  c_mean :: "(int \<times> pyfloat) list"
  c_band :: "(int \<times> pyfloat \<times> pyfloat) list"

fun comparison_curves :: "world \<Rightarrow> string list \<Rightarrow> string \<Rightarrow> py_exn + curve list" where
  "comparison_curves w [] scale = Inr []"
| "comparison_curves w (algorithm # rest) scale =
     (case load_convergence_data w algorithm scale of
        Inl e \<Rightarrow> Inl e
      | Inr None \<Rightarrow> comparison_curves w rest scale
      | Inr (Some data) \<Rightarrow>
          (case draw_curves w data of
             Some e \<Rightarrow> Inl e
           | None \<Rightarrow>
               (case comparison_curves w rest scale of
                  Inl e \<Rightarrow> Inl e
                | Inr cs \<Rightarrow>
                    Inr (\<lparr>c_label = algorithm, c_mean = group_mean w data,
                          c_band = std_band w data\<rparr> # cs))))"

definition plot_comparison :: "world \<Rightarrow> string list \<Rightarrow> string \<Rightarrow> py_exn + string \<times> curve list" where
  "plot_comparison w algorithms scale =
     (case comparison_curves w algorithms scale of
        Inl e \<Rightarrow> Inl e
      | Inr cs \<Rightarrow>
          (let output_file = output_dir @ ''/convergence_comparison_'' @ scale @ ''.png''
           in case savefig w output_file of
                Some e \<Rightarrow> Inl e
              | None \<Rightarrow> Inr (output_file, cs)))"

subsection \<open>generate\_convergence\_report\<close>

record conv_stats =
  initial :: pyfloat
  final :: pyfloat
  improvement :: pyfloat
  half_improvement :: pyfloat

text \<open>
  \<open>iloc[0]\<close> on an empty series raises \<open>IndexError\<close>; on a non-empty one \<open>iloc[-1]\<close>
  and \<open>iloc[len // 2]\<close> are in range.
\<close>

definition convergence_stats :: "world \<Rightarrow> data_row list \<Rightarrow> py_exn + conv_stats" where
  "convergence_stats w data =
     (let mean_data = map snd (group_mean w data)
      in if mean_data = [] then Inl IndexError
         else let initial = mean_data ! 0;
                  final = mean_data ! (length mean_data - 1);
                  improvement = f_mul (f_div (f_sub initial final) initial) (Fin 100);
                  half_point = length mean_data div 2;
                  half_improvement =
                    f_mul (f_div (f_sub initial (mean_data ! half_point)) (f_sub initial final)) (Fin 100)
              in Inr \<lparr>initial = initial, final = final, improvement = improvement,
                      half_improvement = half_improvement\<rparr>)"

definition report_line :: "string \<Rightarrow> conv_stats \<Rightarrow> string" where
  "report_line algorithm st =
     ''| '' @ algorithm @ '' | '' @ fmt_fixed 2 (initial st) @ '' | '' @ fmt_fixed 2 (final st) @ '' | '' @
     fmt_fixed 2 (improvement st) @ ''% | '' @ fmt_fixed 2 (half_improvement st) @ ''% |'' @ [CHR 0x0A]"

fun report_rows :: "world \<Rightarrow> string list \<Rightarrow> string \<Rightarrow> py_exn + (string \<times> string) list" where
  "report_rows w [] scale = Inr []"
| "report_rows w (algorithm # rest) scale =
     (case load_convergence_data w algorithm scale of
        Inl e \<Rightarrow> Inl e
      | Inr None \<Rightarrow> report_rows w rest scale
      | Inr (Some data) \<Rightarrow>
          (case convergence_stats w data of
             Inl e \<Rightarrow> Inl e
           | Inr st \<Rightarrow>
               (case report_rows w rest scale of
                  Inl e \<Rightarrow> Inl e
                | Inr rows \<Rightarrow> Inr ((algorithm, report_line algorithm st) # rows))))"

text \<open>
  The report: the file written and its table rows, each with the algorithm it is for.
\<close>

definition generate_convergence_report ::
  "world \<Rightarrow> string list \<Rightarrow> string \<Rightarrow> py_exn + string \<times> (string \<times> string) list" where
  "generate_convergence_report w algorithms scale =
     (case report_rows w algorithms scale of
        Inl e \<Rightarrow> Inl e
      | Inr rows \<Rightarrow>
          (let report_file = output_dir @ ''/convergence_report_'' @ scale @ ''.md''
           in case write_lines w report_file of
                Some e \<Rightarrow> Inl e
              | None \<Rightarrow> Inr (report_file, rows)))"

subsection \<open>main\<close>

fun plot_each :: "world \<Rightarrow> string list \<Rightarrow> string \<Rightarrow> py_exn + figure option list" where
  "plot_each w [] scale = Inr []"
| "plot_each w (algorithm # rest) scale =
     (case plot_single_algorithm w algorithm scale of
        Inl e \<Rightarrow> Inl e
      | Inr fig \<Rightarrow>
          (case plot_each w rest scale of
             Inl e \<Rightarrow> Inl e
           | Inr figs \<Rightarrow> Inr (fig # figs)))"

record convergence_output =
  figures :: "figure option list"
  comparison :: "string \<times> curve list"
  report :: "string \<times> (string \<times> string) list"

text \<open>
  \<open>main\<close> has no \<open>try\<close>: the first exception of a step is the result of the script.
\<close>

definition convergence_run :: "world \<Rightarrow> string list \<Rightarrow> string \<Rightarrow> py_exn + convergence_output" where
  "convergence_run w algorithms scale =
     (case mkdir w of
        Some e \<Rightarrow> Inl e
      | None \<Rightarrow>
          (case plot_each w algorithms scale of
             Inl e \<Rightarrow> Inl e
           | Inr figs \<Rightarrow>
               (case plot_comparison w algorithms scale of
                  Inl e \<Rightarrow> Inl e
                | Inr cmp \<Rightarrow>
                    (case generate_convergence_report w algorithms scale of
                       Inl e \<Rightarrow> Inl e
                     | Inr rep \<Rightarrow> Inr \<lparr>figures = figs, comparison = cmp, report = rep\<rparr>))))"


section \<open>plot\_sensitivity.py\<close>

subsection \<open>Choosing the data file\<close>

text \<open>
  \<open>py_max_key key best k xs\<close> is the loop of \<open>max(files, key=...)\<close> after the first
  element: the key of each element is computed in turn, an exception of the key
  function ends the loop, and a later element replaces the best one so far only when
  its key is strictly greater.
\<close>

fun py_max_key :: "('a \<Rightarrow> py_exn + rat) \<Rightarrow> 'a \<Rightarrow> rat \<Rightarrow> 'a list \<Rightarrow> py_exn + 'a" where
  "py_max_key key best k [] = Inr best"
| "py_max_key key best k (x # xs) =
     (case key x of
        Inl e \<Rightarrow> Inl e
      | Inr kx \<Rightarrow> if k < kx then py_max_key key x kx xs else py_max_key key best k xs)"

definition auto_discover :: "world \<Rightarrow> py_exn + string" where
  "auto_discover w =
     (case glob_sensitivity w of
        [] \<Rightarrow> Inl FileNotFoundError
      | f # fs \<Rightarrow>
          (case getctime w f of
             Inl e \<Rightarrow> Inl e
           | Inr k \<Rightarrow> py_max_key (getctime w) f k fs))"

record plotter =
  data_file :: string
  data :: "sens_row list option"

definition SensitivityPlotter_init :: "world \<Rightarrow> string option \<Rightarrow> py_exn + plotter" where
  "SensitivityPlotter_init w file =
     (case mkdir w of
        Some e \<Rightarrow> Inl e
      | None \<Rightarrow>
          (case file of
             Some f \<Rightarrow> Inr \<lparr>data_file = f, data = None\<rparr>
           | None \<Rightarrow>
               (case auto_discover w of
                  Inl e \<Rightarrow> Inl e
                | Inr f \<Rightarrow> Inr \<lparr>data_file = f, data = None\<rparr>)))"

definition load_data :: "world \<Rightarrow> plotter \<Rightarrow> py_exn + plotter" where
  "load_data w p =
     (case read_csv w (data_file p) of
        Inl e \<Rightarrow> Inl e
      | Inr t \<Rightarrow> Inr (p\<lparr>data := Some t\<rparr>))"

text \<open>The first lines of every method: \<open>if self.data is None: self.load_data()\<close>.\<close>

definition ensure_data :: "world \<Rightarrow> plotter \<Rightarrow> py_exn + plotter \<times> sens_row list" where
  "ensure_data w p =
     (case data p of
        Some t \<Rightarrow> Inr (p, t)
      | None \<Rightarrow>
          (case read_csv w (data_file p) of
             Inl e \<Rightarrow> Inl e
           | Inr t \<Rightarrow> Inr (p\<lparr>data := Some t\<rparr>, t)))"

subsection \<open>The pivot\<close>

text \<open>
  The library call \<open>DataFrame.pivot(index='lambda', columns='k', values=metric)\<close>, as
  pandas documents it: the row labels are the
  distinct values of \<open>lambda\<close> and the column labels the distinct values of \<open>k\<close>, both
  ascending; a pair that occurs twice raises \<open>ValueError\<close>; a pair that does not occur
  leaves its cell empty (\<open>None\<close>, pandas' NaN). An unknown column name raises \<open>KeyError\<close>.
\<close>

definition column :: "string \<Rightarrow> (sens_row \<Rightarrow> rat) option" where
  "column nm =
     (if nm = ''k'' then Some (\<lambda>r. of_int (K r))
      else if nm = ''lambda'' then Some Lambda
      else if nm = ''MeanMakespan'' then Some MeanMakespan
      else if nm = ''StdMakespan'' then Some StdMakespan
      else if nm = ''CV'' then Some CV
      else if nm = ''MinMakespan'' then Some MinMakespan
      else if nm = ''MaxMakespan'' then Some MaxMakespan
      else None)"

record pivot_table =
  p_index :: "rat list"
  p_columns :: "int list"
  p_cells :: "rat option list list"

definition pivot :: "string \<Rightarrow> sens_row list \<Rightarrow> py_exn + pivot_table" where
  "pivot metric t =
     (case column metric of
        None \<Rightarrow> Inl KeyError
      | Some val \<Rightarrow>
          if \<not> distinct (map (\<lambda>r. (Lambda r, K r)) t) then Inl ValueError
          else let idx = sort (remdups (map Lambda t));
                   cols = sort (remdups (map K t))
               in Inr \<lparr>p_index = idx, p_columns = cols,
                       p_cells = map (\<lambda>l. map (\<lambda>c. map_option val (find (\<lambda>r. Lambda r = l \<and> K r = c) t)) cols) idx\<rparr>)"

text \<open>\<open>pivot.loc[l, c]\<close> on labels that are present.\<close>

definition index_of :: "'a \<Rightarrow> 'a list \<Rightarrow> nat option" where
  "index_of x xs = (if x \<in> set xs then Some (length (takeWhile (\<lambda>y. y \<noteq> x) xs)) else None)"

definition cell :: "pivot_table \<Rightarrow> rat \<Rightarrow> int \<Rightarrow> rat option" where
  "cell pt l c =
     (case (index_of l (p_index pt), index_of c (p_columns pt)) of
        (Some i, Some j) \<Rightarrow> p_cells pt ! i ! j
      | _ \<Rightarrow> None)"

subsection \<open>plot\_heatmap\<close>

text \<open>The float64 values of the literals \<open>0.4\<close>, \<open>0.39\<close> and \<open>0.41\<close>.\<close>

definition float_0_4 :: rat where
  "float_0_4 = 3602879701896397 / 9007199254740992"

definition float_0_39 :: rat where
  "float_0_39 = 3512807709348987 / 9007199254740992"

definition float_0_41 :: rat where
  "float_0_41 = 7385903388887613 / 18014398509481984"

text \<open>
  \<open>_mark_default_config\<close>: \<open>list.index\<close> raises \<open>ValueError\<close> when the label is
  missing, and the \<open>except\<close> clause then skips the marker.
\<close>

definition mark_default_config :: "pivot_table \<Rightarrow> (nat \<times> nat) option" where
  "mark_default_config pt =
     (case index_of 3 (p_columns pt) of
        None \<Rightarrow> None
      | Some k_index \<Rightarrow>
          (case index_of float_0_4 (p_index pt) of
             None \<Rightarrow> None
           | Some lambda_index \<Rightarrow> Some (k_index, lambda_index)))"

record heatmap =
  h_file :: string
  h_table :: pivot_table
  h_marker :: "(nat \<times> nat) option"

text \<open>
  The drawing calls of a heatmap (\<open>sns.heatmap\<close> and the labels). On a pivot without
  rows (a header-only file) the colour range has no minimum and \<open>sns.heatmap\<close> raises
  \<open>ValueError\<close>; on any other pivot the outcome is the world's, by the name of the file
  the heatmap is for.
\<close>

definition draw_heatmap :: "world \<Rightarrow> string \<Rightarrow> pivot_table \<Rightarrow> py_exn option" where
  "draw_heatmap w path pt = (if p_index pt = [] then Some ValueError else heatmap_calls w path)"

text \<open>Every call in the script passes the file name, so the default name is not modelled.\<close>

definition plot_heatmap :: "world \<Rightarrow> plotter \<Rightarrow> string \<Rightarrow> string \<Rightarrow> py_exn + plotter \<times> heatmap" where
  "plot_heatmap w p metric filename =
     (case ensure_data w p of
        Inl e \<Rightarrow> Inl e
      | Inr (p', t) \<Rightarrow>
          (case pivot metric t of
             Inl e \<Rightarrow> Inl e
           | Inr pt \<Rightarrow>
               (let output_path = output_dir @ ''/'' @ filename
                in case draw_heatmap w output_path pt of
                     Some e \<Rightarrow> Inl e
                   | None \<Rightarrow>
                       (case savefig w output_path of
                          Some e \<Rightarrow> Inl e
                        | None \<Rightarrow> Inr (p', \<lparr>h_file = output_path, h_table = pt,
                                            h_marker = mark_default_config pt\<rparr>)))))"

definition plot_all_metrics :: "world \<Rightarrow> plotter \<Rightarrow> py_exn + plotter \<times> heatmap list" where
  "plot_all_metrics w p =
     (case ensure_data w p of
        Inl e \<Rightarrow> Inl e
      | Inr (p0, t) \<Rightarrow>
          (case plot_heatmap w p0 ''MeanMakespan'' ''sensitivity_heatmap_mean.png'' of
             Inl e \<Rightarrow> Inl e
           | Inr (p1, h1) \<Rightarrow>
               (case plot_heatmap w p1 ''StdMakespan'' ''sensitivity_heatmap_std.png'' of
                  Inl e \<Rightarrow> Inl e
                | Inr (p2, h2) \<Rightarrow>
                    (case plot_heatmap w p2 ''CV'' ''sensitivity_heatmap_cv.png'' of
                       Inl e \<Rightarrow> Inl e
                     | Inr (p3, h3) \<Rightarrow> Inr (p3, [h1, h2, h3])))))"

subsection \<open>plot\_parameter\_trends\<close>

record trends =
  t_file :: string
  k_trend :: "(rat \<times> int list \<times> rat list) list"
  lambda_trend :: "(int \<times> rat list \<times> rat list) list"

definition plot_parameter_trends :: "world \<Rightarrow> plotter \<Rightarrow> py_exn + plotter \<times> trends" where
  "plot_parameter_trends w p =
     (case ensure_data w p of
        Inl e \<Rightarrow> Inl e
      | Inr (p', t) \<Rightarrow>
          (let output_path = output_dir @ ''/sensitivity_trends.png'';
               tr = \<lparr>t_file = output_path,
                     k_trend = map (\<lambda>lambda_val.
                                 (let lambda_data = filter (\<lambda>r. Lambda r = lambda_val) t
                                  in (lambda_val, map K lambda_data, map MeanMakespan lambda_data)))
                               (sort (py_unique (map Lambda t))),
                     lambda_trend = map (\<lambda>k_val.
                                 (let k_data = filter (\<lambda>r. K r = k_val) t
                                  in (k_val, map Lambda k_data, map MeanMakespan k_data)))
                               (sort (py_unique (map K t)))\<rparr>
           in case savefig w output_path of
                Some e \<Rightarrow> Inl e
              | None \<Rightarrow> Inr (p', tr)))"

subsection \<open>generate\_analysis\_report\<close>

text \<open>\<open>Series.between(lo, hi)\<close>, with its default \<open>inclusive='both'\<close>.\<close>

definition between :: "rat \<Rightarrow> rat \<Rightarrow> rat \<Rightarrow> bool" where
  "between x lo hi = (lo \<le> x \<and> x \<le> hi)"

text \<open>
  \<open>self.data.sort_values('MeanMakespan')\<close>: the rows in the order of the sorting
  permutation, each with its index label, which is its position in the file.
\<close>

definition sort_values :: "world \<Rightarrow> sens_row list \<Rightarrow> (nat \<times> sens_row) list" where
  "sort_values w t = map (\<lambda>i. (i, t ! i)) (argsort w (map MeanMakespan t))"

text \<open>
  A line of the table of best configurations. Its first cell is \<open>i + 1\<close> for the index
  label \<open>i\<close> that \<open>iterrows()\<close> yields with the row.
\<close>

definition rank_cell :: "nat \<times> sens_row \<Rightarrow> nat" where
  "rank_cell ir = fst ir + 1"

definition top5_line :: "nat \<times> sens_row \<Rightarrow> string" where
  "top5_line ir =
     (case ir of (i, row) \<Rightarrow>
        ''| '' @ show_nat (rank_cell ir) @ '' | '' @ show_int (K row) @ '' | '' @
        fmt_fixed 1 (Fin (Lambda row)) @ '' | '' @ fmt_fixed 2 (Fin (MeanMakespan row)) @ '' | '' @
        fmt_fixed 2 (Fin (StdMakespan row)) @ '' | '' @ fmt_fixed 2 (Fin (CV row)) @ ''% |'' @ [CHR 0x0A])"

definition default_config :: "sens_row list \<Rightarrow> (nat \<times> sens_row) list" where
  "default_config t =
     filter (\<lambda>(i, r). K r = 3 \<and> between (Lambda r) float_0_39 float_0_41) (enumerate 0 t)"

text \<open>\<open>argmax\<close> of a boolean array: the first \<open>True\<close>, or 0 when there is none.\<close>

definition argmax_true :: "bool list \<Rightarrow> nat" where
  "argmax_true bs = (if True \<in> set bs then length (takeWhile Not bs) else 0)"

record default_section =
  ds_rank :: nat
  ds_total :: nat
  ds_lines :: "string list"

definition default_analysis :: "world \<Rightarrow> sens_row list \<Rightarrow> default_section option" where
  "default_analysis w t =
     (case default_config t of
        [] \<Rightarrow> None
      | (i, row) # rest \<Rightarrow>
          Some \<lparr>ds_rank = argmax_true (map (\<lambda>(j, r). j = i) (sort_values w t)) + 1,
                ds_total = length t,
                ds_lines =
                  [''- Mean Makespan: '' @ fmt_fixed 2 (Fin (MeanMakespan row)) @ [CHR 0x0A],
                   ''- Std Makespan: '' @ fmt_fixed 2 (Fin (StdMakespan row)) @ [CHR 0x0A],
                   ''- CV: '' @ fmt_fixed 2 (Fin (CV row)) @ ''%'' @ [CHR 0x0A],
                   ''- Min: '' @ fmt_fixed 2 (Fin (MinMakespan row)) @ [CHR 0x0A],
                   ''- Max: '' @ fmt_fixed 2 (Fin (MaxMakespan row)) @ [CHR 0x0A, CHR 0x0A]]\<rparr>)"

record analysis_report =
  a_file :: string
  a_k_values :: "int list"
  a_lambda_values :: "rat list"
  a_total :: nat
  a_top5 :: "string list"
  a_default :: "default_section option"
  a_k_effect :: "(int \<times> string) list"
  a_lambda_effect :: "(string \<times> string) list"

definition generate_analysis_report :: "world \<Rightarrow> plotter \<Rightarrow> py_exn + plotter \<times> analysis_report" where
  "generate_analysis_report w p =
     (case ensure_data w p of
        Inl e \<Rightarrow> Inl e
      | Inr (p', t) \<Rightarrow>
          (let sorted_data = sort_values w t;
               report_file = output_dir @ ''/sensitivity_analysis_report.md'';
               rep = \<lparr>a_file = report_file,
                      a_k_values = sort (py_unique (map K t)),
                      a_lambda_values = sort (py_unique (map Lambda t)),
                      a_total = length t,
                      a_top5 = map top5_line (take 5 sorted_data),
                      a_default = default_analysis w t,
                      a_k_effect = map (\<lambda>k_val.
                          (k_val, fmt_fixed 2 (series_mean w (map MeanMakespan (filter (\<lambda>r. K r = k_val) t)))))
                        (sort (py_unique (map K t))),
                      a_lambda_effect = map (\<lambda>lambda_val.
                          (fmt_fixed 1 (Fin lambda_val),
                           fmt_fixed 2 (series_mean w (map MeanMakespan (filter (\<lambda>r. Lambda r = lambda_val) t)))))
                        (sort (py_unique (map Lambda t)))\<rparr>
           in case write_lines w report_file of
                Some e \<Rightarrow> Inl e
              | None \<Rightarrow> Inr (p', rep)))"

subsection \<open>main\<close>

record sensitivity_output =
  s_heatmaps :: "heatmap list"
  s_trends :: trends
  s_report :: analysis_report

text \<open>The body of the \<open>try\<close> statement.\<close>

definition sensitivity_body :: "world \<Rightarrow> py_exn + sensitivity_output" where
  "sensitivity_body w =
     (case SensitivityPlotter_init w None of
        Inl e \<Rightarrow> Inl e
      | Inr p0 \<Rightarrow>
          (case load_data w p0 of
             Inl e \<Rightarrow> Inl e
           | Inr p1 \<Rightarrow>
               (case plot_all_metrics w p1 of
                  Inl e \<Rightarrow> Inl e
                | Inr (p2, hs) \<Rightarrow>
                    (case plot_parameter_trends w p2 of
                       Inl e \<Rightarrow> Inl e
                     | Inr (p3, tr) \<Rightarrow>
                         (case generate_analysis_report w p3 of
                            Inl e \<Rightarrow> Inl e
                          | Inr (p4, rep) \<Rightarrow>
                              Inr \<lparr>s_heatmaps = hs, s_trends = tr, s_report = rep\<rparr>)))))"

text \<open>
  What the handlers print: the message of the exception, then either the hint to run
  the experiment first or the traceback (\<open>traceback.print_exc()\<close>).
\<close>

datatype console = ErrorMessage py_exn | Hint | Traceback py_exn

text \<open>
  \<open>main\<close>: the first handler takes \<open>FileNotFoundError\<close>, the second every other
  exception; after either, \<open>main\<close> returns as after a run without exception.
\<close>

definition sensitivity_main :: "world \<Rightarrow> console list \<times> (py_exn + sensitivity_output option)" where
  "sensitivity_main w =
     (case sensitivity_body w of
        Inr out \<Rightarrow> ([], Inr (Some out))
      | Inl e \<Rightarrow>
          if e = FileNotFoundError then ([ErrorMessage e, Hint], Inr None)
          else ([ErrorMessage e, Traceback e], Inr None))"

section \<open>plot\_sensitivity\_simple.py\<close>

text \<open>\<open>pivot.stack()\<close>: the cells that are not empty, row by row, with their labels.\<close>

definition stack :: "pivot_table \<Rightarrow> ((rat \<times> int) \<times> rat) list" where
  "stack pt =
     concat (map (\<lambda>(l, row).
               concat (map (\<lambda>(c, v). case v of None \<Rightarrow> [] | Some x \<Rightarrow> [((l, c), x)])
                           (zip (p_columns pt) row)))
             (zip (p_index pt) (p_cells pt)))"

fun idxmin_from :: "'k \<times> rat \<Rightarrow> ('k \<times> rat) list \<Rightarrow> 'k" where
  "idxmin_from best [] = fst best"
| "idxmin_from best (x # xs) = idxmin_from (if snd x < snd best then x else best) xs"

definition idxmin :: "('k \<times> rat) list \<Rightarrow> py_exn + 'k" where
  "idxmin xs = (case xs of [] \<Rightarrow> Inl ValueError | x # r \<Rightarrow> Inr (idxmin_from x r))"

record simple_heatmap =
  sh_file :: string
  sh_table :: pivot_table
  sh_best :: "rat \<times> int"

definition plot_sensitivity_heatmap :: "world \<Rightarrow> string \<Rightarrow> string \<Rightarrow> py_exn + simple_heatmap" where
  "plot_sensitivity_heatmap w csv_file lang =
     (case read_csv w csv_file of
        Inl e \<Rightarrow> Inl e
      | Inr df \<Rightarrow>
          (case pivot ''MeanMakespan'' df of
             Inl e \<Rightarrow> Inl e
           | Inr pt \<Rightarrow>
               (let output_file = ''results/parameter_sensitivity_heatmap_'' @ lang @ ''.png''
                in case draw_heatmap w output_file pt of
                     Some e \<Rightarrow> Inl e
                   | None \<Rightarrow>
                       (case idxmin (stack pt) of
                          Inl e \<Rightarrow> Inl e
                        | Inr best_idx \<Rightarrow>
                            (case savefig w output_file of
                               Some e \<Rightarrow> Inl e
                             | None \<Rightarrow> Inr \<lparr>sh_file = output_file, sh_table = pt,
                                              sh_best = best_idx\<rparr>)))))"

section \<open>Example inputs\<close>

text \<open>
  Two seed files of algorithm CBO at scale M100, three iterations each, and the
  aggregates on them: the mean by summing from the left, the sample standard deviation
  where it needs no square root (equal values), and a stable sorting permutation.
\<close>

definition example_rows :: "csv_row list" where
  "example_rows =
     [\<lparr>Iteration = 0, BestFitness = Fin 100\<rparr>,
      \<lparr>Iteration = 1, BestFitness = Fin 90\<rparr>,
      \<lparr>Iteration = 2, BestFitness = Fin 80\<rparr>]"

definition example_files :: "conv_file list" where
  "example_files =
     [\<lparr>fname = ''convergence_CBO_M100_seed1.csv'', content = Inr example_rows\<rparr>,
      \<lparr>fname = ''convergence_CBO_M100_seed2.csv'', content = Inr example_rows\<rparr>]"

definition example_data :: "data_row list" where
  "example_data =
     [\<lparr>Iteration = 0, BestFitness = Fin 100, Seed = 1\<rparr>,
      \<lparr>Iteration = 1, BestFitness = Fin 90, Seed = 1\<rparr>,
      \<lparr>Iteration = 2, BestFitness = Fin 80, Seed = 1\<rparr>,
      \<lparr>Iteration = 0, BestFitness = Fin 100, Seed = 2\<rparr>,
      \<lparr>Iteration = 1, BestFitness = Fin 90, Seed = 2\<rparr>,
      \<lparr>Iteration = 2, BestFitness = Fin 80, Seed = 2\<rparr>]"

definition example_seed :: "conv_file \<Rightarrow> int" where
  "example_seed f = (if fname f = ''convergence_CBO_M100_seed1.csv'' then 1 else 2)"

definition naive_mean :: "pyfloat list \<Rightarrow> pyfloat" where
  "naive_mean vs = f_div (foldl f_add (Fin 0) vs) (Fin (of_nat (length vs)))"

definition example_std :: "pyfloat list \<Rightarrow> pyfloat" where
  "example_std vs = (if 2 \<le> length vs \<and> (\<forall>v\<in>set vs. v = hd vs \<and> \<not> f_nan v \<and> \<not> f_inf v) then Fin 0 else NaN)"

definition stable_argsort :: "rat list \<Rightarrow> nat list" where
  "stable_argsort xs = map fst (sort_key snd (enumerate 0 xs))"

definition example_table :: "sens_row list" where
  "example_table =
     [\<lparr>K = 2, Lambda = float_0_4, MeanMakespan = 520, StdMakespan = 12, CV = 2,
       MinMakespan = 500, MaxMakespan = 540\<rparr>,
      \<lparr>K = 3, Lambda = float_0_4, MeanMakespan = 500, StdMakespan = 10, CV = 2,
       MinMakespan = 480, MaxMakespan = 520\<rparr>]"

definition example_world :: world where
  "example_world =
     \<lparr>glob_convergence = (\<lambda>p. if p = ''convergence_CBO_M100_seed*.csv'' then example_files else []),
      glob_sensitivity = [''sensitivity_results_1.csv'', ''sensitivity_results_2.csv''],
      getctime = (\<lambda>f. Inr (if f = ''sensitivity_results_2.csv'' then 200 else 100)),
      read_csv = (\<lambda>f. Inr example_table),
      mkdir = None,
      plot_calls = (\<lambda>d. None),
      heatmap_calls = (\<lambda>f. None),
      savefig = (\<lambda>f. None),
      write_lines = (\<lambda>f. None),
      agg_mean = naive_mean,
      agg_std = example_std,
      series_mean = (\<lambda>xs. naive_mean (map Fin xs)),
      argsort = stable_argsort\<rparr>"





text \<open>A sensitivity file in which the pair \<open>k = 3\<close>, \<open>lambda = 0.4\<close> occurs twice.\<close>

definition dup_table :: "sens_row list" where
  "dup_table =
     example_table @
     [\<lparr>K = 3, Lambda = float_0_4, MeanMakespan = 510, StdMakespan = 11, CV = 2,
       MinMakespan = 490, MaxMakespan = 530\<rparr>]"

definition dup_world :: world where
  "dup_world = example_world\<lparr>read_csv := (\<lambda>f. Inr dup_table)\<rparr>"

text \<open>Sensitivity rows for the examples of the report.\<close>

definition mk_row :: "int \<Rightarrow> rat \<Rightarrow> rat \<Rightarrow> sens_row" where
  "mk_row kk l m =
     \<lparr>K = kk, Lambda = l, MeanMakespan = m, StdMakespan = 10, CV = 2,
      MinMakespan = m - 20, MaxMakespan = m + 20\<rparr>"

text \<open>Seven configurations: the first five are the best, in order; the last two are not in order.\<close>

definition unsorted_tail_table :: "sens_row list" where
  "unsorted_tail_table =
     [mk_row 1 float_0_4 501, mk_row 2 float_0_4 502, mk_row 3 float_0_4 503,
      mk_row 4 float_0_4 504, mk_row 5 float_0_4 505, mk_row 6 float_0_4 507,
      mk_row 7 float_0_4 506]"

text \<open>Five configurations from the worst to the best.\<close>

definition descending_table :: "sens_row list" where
  "descending_table =
     [mk_row 1 float_0_4 505, mk_row 2 float_0_4 504, mk_row 3 float_0_4 503,
      mk_row 4 float_0_4 502, mk_row 5 float_0_4 501]"

text \<open>Two configurations with \<open>k = 3\<close>, at the two ends of the window, and none at \<open>0.4\<close>.\<close>

definition window_ends_table :: "sens_row list" where
  "window_ends_table = [mk_row 3 float_0_39 510, mk_row 3 float_0_41 500]"


section \<open>Facts about the float model\<close>

lemma ilog2_bounds: "0 < a \<Longrightarrow> 2 powi ilog2 a \<le> a \<and> a < 2 powi (ilog2 a + 1)"
proof (induction a rule: ilog2.induct)
  case (1 a)
  show ?case
  proof (cases "2 \<le> a")
    case True
    then have e: "ilog2 a = ilog2 (a / 2) + 1" using 1(3) by (subst ilog2.simps) simp
    have "2 powi ilog2 (a / 2) \<le> a / 2 \<and> a / 2 < 2 powi (ilog2 (a / 2) + 1)"
      using 1(1) True 1(3) by simp
    then show ?thesis unfolding e by (simp add: power_int_add)
  next
    case False
    show ?thesis
    proof (cases "a < 1")
      case True
      then have e: "ilog2 a = ilog2 (a * 2) - 1" using 1(3) False by (subst ilog2.simps) simp
      have "2 powi ilog2 (a * 2) \<le> a * 2 \<and> a * 2 < 2 powi (ilog2 (a * 2) + 1)"
        using 1(2) True False 1(3) by simp
      then show ?thesis unfolding e by (simp add: power_int_add power_int_diff)
    next
      case F2: False
      then have e: "ilog2 a = 0" using 1(3) False by (subst ilog2.simps) simp
      show ?thesis unfolding e using False F2 by simp
    qed
  qed
qed

lemma ilog2_unique:
  assumes "0 < a" "2 powi e \<le> a" "a < 2 powi (e + 1)"
  shows "ilog2 a = e"
proof -
  have b: "2 powi ilog2 a \<le> a" "a < 2 powi (ilog2 a + 1)" using ilog2_bounds [OF assms(1)] by auto
  have "(2::rat) powi e < 2 powi (ilog2 a + 1)" using assms(2) b(2) by linarith
  then have "e < ilog2 a + 1"
    by (metis not_less one_le_numeral power_int_increasing)
  moreover have "(2::rat) powi ilog2 a < 2 powi (e + 1)" using assms(3) b(1) by linarith
  then have "ilog2 a < e + 1"
    by (metis not_less one_le_numeral power_int_increasing)
  ultimately show ?thesis by linarith
qed

lemma fl_round_at:
  assumes "x \<noteq> 0" "2 powi e \<le> \<bar>x\<bar>" "\<bar>x\<bar> < 2 powi (e + 1)"
  shows "fl_round x =
     (let q = 2 powi (max e (- 1022) - 52);
          m = of_int (round_half_even (\<bar>x\<bar> / q)) * q
      in if 2 powi 1024 \<le> m then (if 0 < x then PInf else NInf)
         else if m = 0 then (if 0 < x then Fin 0 else NegZero)
         else Fin (if 0 < x then m else - m))"
proof -
  have h: "ilog2 \<bar>x\<bar> = e" using assms by (intro ilog2_unique) auto
  show ?thesis unfolding fl_round_def Let_def h using assms(1) by simp
qed

lemma round_half_even_div:
  assumes "0 < q"
  shows "round_half_even (of_int p / of_int q) =
     (let n = p div q; r = 2 * (p mod q)
      in if r < q then n else if q < r then n + 1 else if even n then n else n + 1)"
proof -
  have f: "\<lfloor>(of_int p / of_int q :: rat)\<rfloor> = p div q" by (rule floor_divide_of_int_eq)
  have "(of_int p :: rat) = of_int (p div q) * of_int q + of_int (p mod q)"
    by (metis div_mult_mod_eq of_int_add of_int_mult)
  then have r: "(of_int p / of_int q :: rat) - of_int (p div q) = of_int (p mod q) / of_int q"
    using assms by (simp add: field_simps)
  have l: "(of_int (p mod q) / of_int q :: rat) < 1 / 2 \<longleftrightarrow> 2 * (p mod q) < q"
  proof -
    have "(of_int (p mod q) / of_int q :: rat) < 1 / 2 \<longleftrightarrow> (of_int (2 * (p mod q)) :: rat) < of_int q"
      using assms by (simp add: field_simps)
    then show ?thesis by (simp only: of_int_less_iff)
  qed
  have g: "(1 / 2 :: rat) < of_int (p mod q) / of_int q \<longleftrightarrow> q < 2 * (p mod q)"
  proof -
    have "(1 / 2 :: rat) < of_int (p mod q) / of_int q \<longleftrightarrow> (of_int q :: rat) < of_int (2 * (p mod q))"
      using assms by (simp add: field_simps)
    then show ?thesis by (simp only: of_int_less_iff)
  qed
  show ?thesis unfolding round_half_even_def Let_def f r l g ..
qed

lemma round_half_even_numeral_div:
  "round_half_even (numeral a / numeral b) =
     (let n = (numeral a :: int) div numeral b; r = 2 * ((numeral a :: int) mod numeral b)
      in if r < numeral b then n else if numeral b < r then n + 1 else if even n then n else n + 1)"
  using round_half_even_div [of "numeral b" "numeral a"] by simp

lemma round_half_even_of_int: "round_half_even (of_int n) = n"
  by (simp add: round_half_even_def)

lemma round_half_even_numeral: "round_half_even (numeral a) = numeral a"
  using round_half_even_of_int [of "numeral a"] by simp

lemma fl_round_of_nat:
  assumes "0 < k" "k < 2 ^ 53"
  shows "fl_round (of_nat k) = Fin (of_nat k)"
proof -
  define a :: rat where "a = of_nat k"
  have a0: "0 < a" and a1: "1 \<le> a" using assms(1) by (simp_all add: a_def)
  have "(of_nat k :: rat) < of_nat (2 ^ 53)" using assms(2) by (simp only: of_nat_less_iff)
  then have a53: "a < 2 ^ 53" by (simp add: a_def)
  define e where "e = ilog2 a"
  have b1: "2 powi e \<le> a" and b2: "a < 2 powi (e + 1)"
    using ilog2_bounds [OF a0] by (simp_all add: e_def)
  have e0: "0 \<le> e"
  proof (rule ccontr)
    assume "\<not> 0 \<le> e"
    then have "e + 1 \<le> 0" by simp
    then have "(2::rat) powi (e + 1) \<le> 2 powi 0" by (intro power_int_increasing) simp_all
    then show False using b2 a1 by simp
  qed
  have e52: "e \<le> 52"
  proof (rule ccontr)
    assume "\<not> e \<le> 52"
    then have "53 \<le> e" by simp
    then have "(2::rat) powi 53 \<le> 2 powi e" by (intro power_int_increasing) simp_all
    then show False using b1 a53 by simp
  qed
  define d where "d = nat (52 - e)"
  have ed: "e - 52 = - int d" using e52 by (simp add: d_def)
  have q: "(2::rat) powi (e - 52) = 1 / 2 ^ d"
    unfolding ed by (simp add: power_int_minus field_simps)
  have "a / (2 powi (e - 52)) = of_int (int (k * 2 ^ d))" by (simp add: q a_def)
  then have r: "round_half_even (a / 2 powi (e - 52)) = int (k * 2 ^ d)"
    by (simp only: round_half_even_of_int)
  have m: "of_int (int (k * 2 ^ d)) * 2 powi (e - 52) = a" by (simp add: q a_def)
  have big: "\<not> 2 powi 1024 \<le> a" using a53 by simp
  have mx: "max e (- 1022) = e" using e0 by simp
  have abs: "\<bar>a\<bar> = a" using a0 by simp
  have nz: "a \<noteq> 0" using a0 by simp
  have b1': "2 powi e \<le> \<bar>a\<bar>" and b2': "\<bar>a\<bar> < 2 powi (e + 1)"
    using b1 b2 abs by simp_all
  note F = fl_round_at [OF nz b1' b2']
  have "fl_round a = Fin a"
    unfolding F Let_def abs mx r m using a0 big by simp
  then show ?thesis by (simp add: a_def)
qed

lemma fl_round_numeral:
  "(numeral n :: nat) < 2 ^ 53 \<Longrightarrow> fl_round (numeral n) = Fin (numeral n)"
  using fl_round_of_nat [of "numeral n"] by simp

section \<open>Loading the convergence files\<close>


lemma load_files_ok:
  "(\<forall>f\<in>set fs. py_int (seed_text f) = Inr (seed_of f) \<and> content f = Inr (rows_of f)) \<Longrightarrow>
   load_files fs = Inr (map (\<lambda>f. map (with_seed (seed_of f)) (rows_of f)) fs)"
  by (induction fs) auto




lemma length_concat_uniform:
  "(\<forall>xs\<in>set xss. length xs = n) \<Longrightarrow> length (concat xss) = length xss * n"
  by (induction xss) auto

lemma load_none:
  "glob_convergence w (convergence_pattern a scale) = [] \<Longrightarrow> load_convergence_data w a scale = Inr None"
  by (simp add: load_convergence_data_def)

lemma load_some_files:
  "load_convergence_data w a scale = Inr (Some d) \<Longrightarrow> glob_convergence w (convergence_pattern a scale) \<noteq> []"
  by (auto simp: load_convergence_data_def Let_def split: if_splits)


text \<open>
  C1. When the files that match the pattern of an algorithm and a scale are \<open>files\<close>, at
  least one, each read as \<open>rows_per_file\<close> rows and each with a name whose text after the
  last \<open>seed\<close> reads as the integer \<open>seed_of f\<close>, then \<open>load_convergence_data\<close> returns
  the rows of the files in order, every row with the seed of its file in the \<open>Seed\<close>
  column, and the table has \<open>length files * rows_per_file\<close> rows.
\<close>

theorem load_convergence_data_rows:
  assumes "glob_convergence w (convergence_pattern algorithm scale) = files"
    and "files \<noteq> []"
    and "\<forall>f\<in>set files. \<exists>rows. content f = Inr rows \<and> length rows = rows_per_file"
    and "\<forall>f\<in>set files. py_int (seed_text f) = Inr (seed_of f)"
  shows "load_convergence_data w algorithm scale =
           Inr (Some (concat (map (\<lambda>f. map (with_seed (seed_of f)) (projr (content f))) files))) \<and>
         length (concat (map (\<lambda>f. map (with_seed (seed_of f)) (projr (content f))) files)) =
           length files * rows_per_file"
proof -
  have c: "\<forall>f\<in>set files. content f = Inr (projr (content f)) \<and> length (projr (content f)) = rows_per_file"
    using assms(3) by auto
  have "\<forall>f\<in>set files. py_int (seed_text f) = Inr (seed_of f) \<and> content f = Inr (projr (content f))"
    using assms(4) c by simp
  then have "load_files files = Inr (map (\<lambda>f. map (with_seed (seed_of f)) (projr (content f))) files)"
    by (rule load_files_ok)
  then have "load_convergence_data w algorithm scale =
      Inr (Some (concat (map (\<lambda>f. map (with_seed (seed_of f)) (projr (content f))) files)))"
    using assms(1,2) by (simp add: load_convergence_data_def)
  moreover have "length (concat (map (\<lambda>f. map (with_seed (seed_of f)) (projr (content f))) files)) =
      length (map (\<lambda>f. map (with_seed (seed_of f)) (projr (content f))) files) * rows_per_file"
    using c by (intro length_concat_uniform) auto
  ultimately show ?thesis by simp
qed

lemma example_glob:
  "glob_convergence example_world (convergence_pattern ''CBO'' ''M100'') = example_files"
  by (simp add: example_world_def convergence_pattern_def)

lemma example_seeds: "\<forall>f\<in>set example_files. py_int (seed_text f) = Inr (example_seed f)"
  by code_simp

lemma example_load:
  assumes "glob_convergence w (convergence_pattern ''CBO'' ''M100'') = example_files"
  shows "load_convergence_data w ''CBO'' ''M100'' = Inr (Some example_data)"
proof -
  have "\<forall>f\<in>set example_files.
      py_int (seed_text f) = Inr (example_seed f) \<and> content f = Inr ((\<lambda>f. example_rows) f)"
    using example_seeds by (simp add: example_files_def)
  then have "load_files example_files =
      Inr (map (\<lambda>f. map (with_seed (example_seed f)) ((\<lambda>f. example_rows) f)) example_files)"
    by (rule load_files_ok)
  then show ?thesis
    using assms
    by (simp add: load_convergence_data_def)
       (simp add: example_files_def example_rows_def example_seed_def with_seed_def example_data_def)
qed

theorem load_convergence_data_rows_witness:
  "load_convergence_data example_world ''CBO'' ''M100'' = Inr (Some example_data) \<and>
   length example_data = 2 * 3"
proof -
  have nonempty: "example_files \<noteq> []" by (simp add: example_files_def)
  have rows: "\<forall>f\<in>set example_files. \<exists>rows. content f = Inr rows \<and> length rows = 3"
    by (simp add: example_files_def example_rows_def)
  show ?thesis
    using load_convergence_data_rows [OF example_glob nonempty rows example_seeds]
    by (simp add: example_files_def example_rows_def example_seed_def with_seed_def example_data_def)
qed

section \<open>The convergence script on bad and on missing files\<close>
















lemma comparison_curves_skip:
  "glob_convergence w (convergence_pattern a scale) = [] \<Longrightarrow>
   comparison_curves w (xs @ a # ys) scale = comparison_curves w (xs @ ys) scale"
  by (induction xs) (auto simp: load_none split: sum.splits option.splits)

lemma report_rows_skip:
  "glob_convergence w (convergence_pattern a scale) = [] \<Longrightarrow>
   report_rows w (xs @ a # ys) scale = report_rows w (xs @ ys) scale"
  by (induction xs) (auto simp: load_none split: sum.splits option.splits)

lemma comparison_curves_labels:
  "comparison_curves w algs scale = Inr cs \<Longrightarrow> c \<in> set cs \<Longrightarrow>
   glob_convergence w (convergence_pattern (c_label c) scale) \<noteq> []"
  by (induction algs arbitrary: cs)
     (auto simp: load_none split: sum.splits option.splits)

lemma report_rows_labels:
  "report_rows w algs scale = Inr rows \<Longrightarrow> (b, l) \<in> set rows \<Longrightarrow>
   glob_convergence w (convergence_pattern b scale) \<noteq> []"
  by (induction algs arbitrary: rows)
     (auto simp: load_none split: sum.splits option.splits)

text \<open>
  C7. When no file matches the pattern of an algorithm, \<open>load_convergence_data\<close>
  returns \<open>None\<close> and does not raise; \<open>plot_single_algorithm\<close> returns without a
  figure; the comparison plot and the report over a list that contains the algorithm
  are those over the list without it; and no curve and no report row of any run is for
  that algorithm.
\<close>

theorem missing_files_are_skipped:
  assumes "glob_convergence w (convergence_pattern a scale) = []"
  shows "load_convergence_data w a scale = Inr None \<and>
         plot_single_algorithm w a scale = Inr None \<and>
         plot_each w (a # ys) scale =
           (case plot_each w ys scale of Inl e \<Rightarrow> Inl e | Inr figs \<Rightarrow> Inr (None # figs)) \<and>
         plot_comparison w (xs @ a # ys) scale = plot_comparison w (xs @ ys) scale \<and>
         generate_convergence_report w (xs @ a # ys) scale =
           generate_convergence_report w (xs @ ys) scale \<and>
         (\<forall>path cs. plot_comparison w algs scale = Inr (path, cs) \<longrightarrow> a \<notin> c_label ` set cs) \<and>
         (\<forall>path rows. generate_convergence_report w algs scale = Inr (path, rows) \<longrightarrow>
            a \<notin> fst ` set rows)"
proof -
  note l = load_none [OF assms]
  have s: "plot_single_algorithm w a scale = Inr None"
    by (simp add: plot_single_algorithm_def l)
  have c: "a \<notin> c_label ` set cs" if "plot_comparison w algs scale = Inr (path, cs)" for path cs
  proof -
    have "comparison_curves w algs scale = Inr cs"
      using that by (auto simp: plot_comparison_def Let_def split: sum.splits option.splits)
    then show ?thesis using comparison_curves_labels assms by fastforce
  qed
  have r: "a \<notin> fst ` set rows" if "generate_convergence_report w algs scale = Inr (path, rows)"
    for path rows
  proof -
    have "report_rows w algs scale = Inr rows"
      using that by (auto simp: generate_convergence_report_def Let_def split: sum.splits option.splits)
    then show ?thesis using report_rows_labels assms by fastforce
  qed
  show ?thesis
    using l s c r
    by (simp add: plot_comparison_def generate_convergence_report_def
        comparison_curves_skip [OF assms] report_rows_skip [OF assms])
qed

theorem missing_files_are_skipped_witness:
  "load_convergence_data example_world ''GWO'' ''M100'' = Inr None \<and>
   plot_single_algorithm example_world ''GWO'' ''M100'' = Inr None \<and>
   plot_comparison example_world [''GWO'', ''CBO''] ''M100'' =
     plot_comparison example_world [''CBO''] ''M100'' \<and>
   generate_convergence_report example_world [''GWO'', ''CBO''] ''M100'' =
     generate_convergence_report example_world [''CBO''] ''M100''"
proof -
  have none: "glob_convergence example_world (convergence_pattern ''GWO'' ''M100'') = []"
    by (simp add: example_world_def convergence_pattern_def)
  show ?thesis
    using missing_files_are_skipped [OF none, of "[''CBO'']" "[]" "[]"] by simp
qed

section \<open>The sensitivity script: choosing the file, and the handlers of main\<close>






lemma convergence_run_propagates:
  "(convergence_run w algs scale = Inl e) =
     (mkdir w = Some e \<or>
      mkdir w = None \<and>
        (plot_each w algs scale = Inl e \<or>
         (\<exists>figs. plot_each w algs scale = Inr figs) \<and>
           (plot_comparison w algs scale = Inl e \<or>
            (\<exists>cmp. plot_comparison w algs scale = Inr cmp) \<and>
              generate_convergence_report w algs scale = Inl e)))"
  by (auto simp: convergence_run_def split: option.splits sum.splits)

lemma dup_body: "sensitivity_body dup_world = Inl ValueError"
  by (simp add: sensitivity_body_def SensitivityPlotter_init_def auto_discover_def load_data_def
      plot_all_metrics_def ensure_data_def plot_heatmap_def pivot_def column_def
      dup_world_def example_world_def dup_table_def example_table_def)

text \<open>
  The claim as it was first worded, "the process exits non-successfully", fails: a
  table with a repeated pair makes the pivot raise \<open>ValueError\<close>, the handler of
  \<open>main\<close> prints the message and the traceback, and the script ends with status 0.
\<close>

theorem sensitivity_main_exit_counterexample:
  "sensitivity_body dup_world = Inl ValueError \<and>
   fst (sensitivity_main dup_world) = [ErrorMessage ValueError, Traceback ValueError] \<and>
   exit_status (snd (sensitivity_main dup_world)) = 0"
  by (simp add: sensitivity_main_def dup_body exit_status_def)

text \<open>
  C5, as amended. An exception of the body of \<open>main\<close> in the sensitivity script that
  is not \<open>FileNotFoundError\<close> is caught by the outer handler, which prints its message
  and the traceback; \<open>main\<close> then returns, and the exit status is 0 in every case. The
  convergence script has no handler: an exception of any of its steps is the outcome of
  the script, and the exit status is 1.
\<close>

theorem outer_handler_only_in_sensitivity_main:
  "(sensitivity_body w = Inl e \<and> e \<noteq> FileNotFoundError \<longrightarrow>
      sensitivity_main w = ([ErrorMessage e, Traceback e], Inr None)) \<and>
   exit_status (snd (sensitivity_main w)) = 0 \<and>
   ((mkdir w = Some e \<or>
     mkdir w = None \<and>
       (plot_each w algs scale = Inl e \<or>
        (\<exists>figs. plot_each w algs scale = Inr figs) \<and>
          (plot_comparison w algs scale = Inl e \<or>
           (\<exists>cmp. plot_comparison w algs scale = Inr cmp) \<and>
             generate_convergence_report w algs scale = Inl e))) \<longrightarrow>
      convergence_run w algs scale = Inl e \<and> exit_status (convergence_run w algs scale) = 1)"
proof -
  have a: "sensitivity_main w = ([ErrorMessage e, Traceback e], Inr None)"
    if "sensitivity_body w = Inl e" "e \<noteq> FileNotFoundError"
    using that by (simp add: sensitivity_main_def)
  have b: "exit_status (snd (sensitivity_main w)) = 0"
    by (simp add: sensitivity_main_def exit_status_def split: sum.splits)
  have c: "exit_status (convergence_run w algs scale) = 1" if "convergence_run w algs scale = Inl e"
    using that by (simp add: exit_status_def)
  show ?thesis using a b c convergence_run_propagates [of w algs scale e] by blast
qed

theorem outer_handler_only_in_sensitivity_main_witness:
  "sensitivity_main dup_world = ([ErrorMessage ValueError, Traceback ValueError], Inr None) \<and>
   exit_status (snd (sensitivity_main dup_world)) = 0 \<and>
   convergence_run (example_world\<lparr>savefig := (\<lambda>f. Some OSError)\<rparr>) [''CBO''] ''M100'' = Inl OSError \<and>
   exit_status (convergence_run (example_world\<lparr>savefig := (\<lambda>f. Some OSError)\<rparr>) [''CBO''] ''M100'') = 1"
proof -
  let ?w = "example_world\<lparr>savefig := (\<lambda>f. Some OSError)\<rparr>"
  have g: "glob_convergence ?w (convergence_pattern ''CBO'' ''M100'') = example_files"
    by (simp add: example_world_def convergence_pattern_def)
  have l: "load_convergence_data ?w ''CBO'' ''M100'' = Inr (Some example_data)"
    using g by (rule example_load)
  have dc: "draw_curves ?w example_data = None"
    by (simp add: draw_curves_def example_data_def example_world_def)
  have p: "plot_each ?w [''CBO''] ''M100'' = Inl OSError"
    by (simp add: plot_single_algorithm_def l dc Let_def)
  have m: "mkdir ?w = None" by (simp add: example_world_def)
  have v: "ValueError \<noteq> FileNotFoundError" by simp
  show ?thesis
    using outer_handler_only_in_sensitivity_main [of dup_world ValueError]
          outer_handler_only_in_sensitivity_main [of ?w OSError "[''CBO'']" "''M100''"]
          dup_body p m v
    by blast
qed

section \<open>The pivot of the heatmap plotters\<close>

lemma index_of_Some:
  assumes "x \<in> set xs"
  shows "\<exists>i. index_of x xs = Some i \<and> i < length xs \<and> xs ! i = x"
proof -
  let ?i = "length (takeWhile (\<lambda>y. y \<noteq> x) xs)"
  have "takeWhile (\<lambda>y. y \<noteq> x) xs \<noteq> xs"
    using assms by (auto simp: takeWhile_eq_all_conv)
  then have lt: "?i < length xs"
    by (metis length_takeWhile_le le_neq_implies_less takeWhile_eq_take take_all_iff linorder_not_le)
  then have "\<not> (xs ! ?i \<noteq> x)" by (rule nth_length_takeWhile)
  then show ?thesis using assms lt by (simp add: index_of_def)
qed

lemma find_by_key:
  assumes "r \<in> set t" "inj_on key (set t)"
  shows "find (\<lambda>q. key q = key r) t = Some r"
  using assms
proof (induction t)
  case Nil
  then show ?case by simp
next
  case (Cons a t)
  show ?case
  proof (cases "key a = key r")
    case True
    then have "a = r" using Cons.prems by (auto dest: inj_onD)
    then show ?thesis by simp
  next
    case False
    then have "r \<in> set t" using Cons.prems by auto
    moreover have "inj_on key (set t)" using Cons.prems by (auto intro: inj_on_subset)
    ultimately show ?thesis using Cons.IH False by simp
  qed
qed

lemma pivot_fields:
  assumes "column metric = Some val" "distinct (map (\<lambda>r. (Lambda r, K r)) t)"
    and "pivot metric t = Inr pt"
  shows "p_index pt = sort (remdups (map Lambda t))"
    and "p_columns pt = sort (remdups (map K t))"
    and "p_cells pt =
           map (\<lambda>l. map (\<lambda>c. map_option val (find (\<lambda>r. Lambda r = l \<and> K r = c) t))
                         (sort (remdups (map K t))))
               (sort (remdups (map Lambda t)))"
proof -
  let ?idx = "sort (remdups (map Lambda t))" and ?cols = "sort (remdups (map K t))"
  let ?R = "\<lparr>p_index = ?idx, p_columns = ?cols,
       p_cells = map (\<lambda>l. map (\<lambda>c. map_option val (find (\<lambda>r. Lambda r = l \<and> K r = c) t)) ?cols) ?idx\<rparr>"
  have e1: "pivot metric t = Inr ?R"
    using assms(1,2) by (simp add: pivot_def Let_def)
  have "Inr pt = (Inr ?R :: py_exn + pivot_table)"
    using assms(3) [symmetric] unfolding e1 .
  then have eq: "pt = ?R" by (rule sum.inject(2) [THEN iffD1])
  show "p_index pt = ?idx" "p_columns pt = ?cols"
      "p_cells pt = map (\<lambda>l. map (\<lambda>c. map_option val (find (\<lambda>r. Lambda r = l \<and> K r = c) t)) ?cols) ?idx"
    unfolding eq by simp_all
qed

lemma pivot_entry:
  assumes "column metric = Some val" "distinct (map (\<lambda>r. (Lambda r, K r)) t)" "r \<in> set t"
    and "pivot metric t = Inr pt"
  shows "\<exists>i j. index_of (Lambda r) (p_index pt) = Some i \<and> i < length (p_index pt) \<and>
               index_of (K r) (p_columns pt) = Some j \<and> j < length (p_columns pt) \<and>
               length (p_cells pt) = length (p_index pt) \<and>
               length (p_cells pt ! i) = length (p_columns pt) \<and>
               p_cells pt ! i ! j = Some (val r)"
proof -
  let ?idx = "sort (remdups (map Lambda t))" and ?cols = "sort (remdups (map K t))"
  note pt = pivot_fields [OF assms(1,2,4)]
  have "Lambda r \<in> set ?idx" using assms(3) by simp
  from index_of_Some [OF this]
  obtain i where i: "index_of (Lambda r) ?idx = Some i" "i < length ?idx" "?idx ! i = Lambda r"
    by (elim exE conjE)
  have "K r \<in> set ?cols" using assms(3) by simp
  from index_of_Some [OF this]
  obtain j where j: "index_of (K r) ?cols = Some j" "j < length ?cols" "?cols ! j = K r"
    by (elim exE conjE)
  have inj: "inj_on (\<lambda>r. (Lambda r, K r)) (set t)" using assms(2) by (simp add: distinct_map)
  have "find (\<lambda>q. (Lambda q, K q) = (Lambda r, K r)) t = Some r"
    using find_by_key [OF assms(3) inj] .
  then have f: "find (\<lambda>q. Lambda q = Lambda r \<and> K q = K r) t = Some r" by simp
  have v: "p_cells pt ! i ! j = Some (val r)"
    unfolding pt(3) using i(2,3) j(2,3) f by simp
  have l1: "length (p_cells pt) = length (p_index pt)" unfolding pt(1,3) by simp
  have l2: "length (p_cells pt ! i) = length (p_columns pt)" unfolding pt(2,3) using i(2) by simp
  have "index_of (Lambda r) (p_index pt) = Some i \<and> i < length (p_index pt) \<and>
               index_of (K r) (p_columns pt) = Some j \<and> j < length (p_columns pt) \<and>
               length (p_cells pt) = length (p_index pt) \<and>
               length (p_cells pt ! i) = length (p_columns pt) \<and>
               p_cells pt ! i ! j = Some (val r)"
    using i(1,2) j(1,2) v l1 l2 unfolding pt(1,2) by simp
  then show ?thesis by - (rule exI [of _ i], rule exI [of _ j], assumption)
qed

lemma pivot_cell:
  assumes "column metric = Some val" "distinct (map (\<lambda>r. (Lambda r, K r)) t)" "r \<in> set t"
    and "pivot metric t = Inr pt"
  shows "cell pt (Lambda r) (K r) = Some (val r)"
proof -
  from pivot_entry [OF assms] obtain i j where
    "index_of (Lambda r) (p_index pt) = Some i" "index_of (K r) (p_columns pt) = Some j"
    "p_cells pt ! i ! j = Some (val r)"
    by (elim exE conjE)
  then show ?thesis by (simp add: cell_def)
qed

lemma stack_member:
  assumes "i < length (p_index pt)" "length (p_cells pt) = length (p_index pt)"
    and "j < length (p_columns pt)" "length (p_cells pt ! i) = length (p_columns pt)"
    and "p_cells pt ! i ! j = Some v"
  shows "((p_index pt ! i, p_columns pt ! j), v) \<in> set (stack pt)"
proof -
  have a: "(p_index pt ! i, p_cells pt ! i) \<in> set (zip (p_index pt) (p_cells pt))"
    using assms(1,2) by (metis length_zip min.idem nth_mem nth_zip)
  have "(p_columns pt ! j, p_cells pt ! i ! j) \<in> set (zip (p_columns pt) (p_cells pt ! i))"
    using assms(3,4) by (metis length_zip min.idem nth_mem nth_zip)
  then have b: "(p_columns pt ! j, Some v) \<in> set (zip (p_columns pt) (p_cells pt ! i))"
    using assms(5) by simp
  have "((p_index pt ! i, p_columns pt ! j), v) \<in>
        set (concat (map (\<lambda>(c, v). case v of None \<Rightarrow> [] | Some x \<Rightarrow> [((p_index pt ! i, c), x)])
                         (zip (p_columns pt) (p_cells pt ! i))))"
    using b by force
  then show ?thesis unfolding stack_def using a by force
qed

lemma stack_nonempty:
  assumes "column metric = Some val" "distinct (map (\<lambda>r. (Lambda r, K r)) t)" "t \<noteq> []"
    and "pivot metric t = Inr pt"
  shows "stack pt \<noteq> []"
proof -
  have "hd t \<in> set t" using assms(3) by simp
  from pivot_entry [OF assms(1,2) this assms(4)] obtain i j where
    "i < length (p_index pt)" "j < length (p_columns pt)"
    "length (p_cells pt) = length (p_index pt)" "length (p_cells pt ! i) = length (p_columns pt)"
    "p_cells pt ! i ! j = Some (val (hd t))"
    by (elim exE conjE)
  then have "((p_index pt ! i, p_columns pt ! j), val (hd t)) \<in> set (stack pt)"
    by (intro stack_member) simp_all
  then show ?thesis by auto
qed

lemma pivot_total:
  assumes "column metric = Some val" "distinct (map (\<lambda>r. (Lambda r, K r)) t)"
  shows "\<exists>pt. pivot metric t = Inr pt"
  using assms by (simp add: pivot_def Let_def)

lemma draw_heatmap_ok:
  assumes "column metric = Some val" "distinct (map (\<lambda>r. (Lambda r, K r)) t)" "t \<noteq> []"
    and "pivot metric t = Inr pt" "heatmap_calls w path = None"
  shows "draw_heatmap w path pt = None"
proof -
  have "set (p_index pt) = Lambda ` set t" unfolding pivot_fields(1) [OF assms(1,2,4)] by simp
  then have "set (p_index pt) \<noteq> {}" using assms(3) by simp
  then have "p_index pt \<noteq> []" by auto
  then show ?thesis using assms(5) by (simp add: draw_heatmap_def)
qed

lemma draw_heatmap_empty:
  assumes "column metric = Some val" "pivot metric [] = Inr pt"
  shows "draw_heatmap w path pt = Some ValueError"
proof -
  have "distinct (map (\<lambda>r. (Lambda r, K r)) [])" by simp
  from pivot_fields(1) [OF assms(1) this assms(2)]
  have "p_index pt = []" by simp
  then show ?thesis by (simp add: draw_heatmap_def)
qed

lemma plot_heatmap_table:
  assumes "ensure_data w p = Inr (p', t)"
  shows "(pivot metric t = Inl e \<longrightarrow> plot_heatmap w p metric filename = Inl e) \<and>
         (\<forall>q h. plot_heatmap w p metric filename = Inr (q, h) \<longrightarrow> pivot metric t = Inr (h_table h))"
  using assms by (auto simp: plot_heatmap_def Let_def split: sum.splits option.splits)

lemma plot_heatmap_total:
  assumes "ensure_data w p = Inr (p', t)" "column metric = Some val"
    and "distinct (map (\<lambda>r. (Lambda r, K r)) t)" "t \<noteq> []"
    and "heatmap_calls w (output_dir @ ''/'' @ filename) = None"
    and "savefig w (output_dir @ ''/'' @ filename) = None"
  shows "\<exists>h. plot_heatmap w p metric filename = Inr (p', h) \<and> pivot metric t = Inr (h_table h)"
proof -
  from pivot_total [OF assms(2,3)] obtain pt where pt: "pivot metric t = Inr pt" ..
  note d = draw_heatmap_ok [OF assms(2,3,4) pt assms(5)]
  let ?h = "\<lparr>h_file = output_dir @ ''/'' @ filename, h_table = pt, h_marker = mark_default_config pt\<rparr>"
  have "plot_heatmap w p metric filename = Inr (p', ?h)"
    using assms(1,6) pt d by (simp add: plot_heatmap_def Let_def)
  then have "plot_heatmap w p metric filename = Inr (p', ?h) \<and> pivot metric t = Inr (h_table ?h)"
    using pt by simp
  then show ?thesis by (rule exI [of _ ?h])
qed

lemma plot_heatmap_empty:
  assumes "ensure_data w p = Inr (p', [])" "column metric = Some val"
  shows "plot_heatmap w p metric filename = Inl ValueError"
proof -
  from pivot_total [OF assms(2), of "[]"] obtain pt where pt: "pivot metric [] = Inr pt" by auto
  note d = draw_heatmap_empty [OF assms(2) pt]
  show ?thesis using assms(1) pt d by (simp add: plot_heatmap_def Let_def)
qed

lemma plot_sensitivity_heatmap_table:
  assumes "read_csv w csv_file = Inr t"
  shows "(pivot ''MeanMakespan'' t = Inl e \<longrightarrow> plot_sensitivity_heatmap w csv_file lang = Inl e) \<and>
         (\<forall>h. plot_sensitivity_heatmap w csv_file lang = Inr h \<longrightarrow>
              pivot ''MeanMakespan'' t = Inr (sh_table h))"
  using assms by (auto simp: plot_sensitivity_heatmap_def Let_def split: sum.splits option.splits)

lemma column_mean: "column ''MeanMakespan'' = Some MeanMakespan"
  by (simp add: column_def)

lemma plot_sensitivity_heatmap_total:
  assumes "read_csv w csv_file = Inr t"
    and "distinct (map (\<lambda>r. (Lambda r, K r)) t)" "t \<noteq> []"
    and "heatmap_calls w (''results/parameter_sensitivity_heatmap_'' @ lang @ ''.png'') = None"
    and "savefig w (''results/parameter_sensitivity_heatmap_'' @ lang @ ''.png'') = None"
  shows "\<exists>h. plot_sensitivity_heatmap w csv_file lang = Inr h \<and>
             pivot ''MeanMakespan'' t = Inr (sh_table h)"
proof -
  from pivot_total [OF column_mean assms(2)] obtain pt where pt: "pivot ''MeanMakespan'' t = Inr pt" ..
  note d = draw_heatmap_ok [OF column_mean assms(2,3) pt assms(4)]
  have "stack pt \<noteq> []" using column_mean assms(2,3) pt by (rule stack_nonempty)
  then obtain x r where s: "stack pt = x # r" by (cases "stack pt") auto
  let ?h = "\<lparr>sh_file = ''results/parameter_sensitivity_heatmap_'' @ lang @ ''.png'',
             sh_table = pt, sh_best = idxmin_from x r\<rparr>"
  have "plot_sensitivity_heatmap w csv_file lang = Inr ?h"
    using assms(1,5) pt d s by (simp add: plot_sensitivity_heatmap_def Let_def idxmin_def)
  then have "plot_sensitivity_heatmap w csv_file lang = Inr ?h \<and>
             pivot ''MeanMakespan'' t = Inr (sh_table ?h)"
    using pt by simp
  then show ?thesis by (rule exI [of _ ?h])
qed

lemma plot_sensitivity_heatmap_empty:
  assumes "read_csv w csv_file = Inr []"
  shows "plot_sensitivity_heatmap w csv_file lang = Inl ValueError"
proof -
  from pivot_total [OF column_mean, of "[]"] obtain pt where pt: "pivot ''MeanMakespan'' [] = Inr pt"
    by auto
  note d = draw_heatmap_empty [OF column_mean pt]
  show ?thesis using assms pt d by (simp add: plot_sensitivity_heatmap_def Let_def)
qed

text \<open>
  C4. For a metric that is a column of the table: when no pair of \<open>lambda\<close> and \<open>k\<close>
  occurs twice, the pivot has one row per distinct \<open>lambda\<close> and one column per distinct
  \<open>k\<close> of the table, no other labels, a cell for every row and column, and at the labels
  of each row of the table the metric of that row; when a pair occurs twice the pivot
  raises \<open>ValueError\<close>. Both plotters build this pivot from the table they have read:
  on a table with rows and without a repeated pair, when the drawing calls and
  \<open>savefig\<close> do not raise, they return a heatmap whose table is the pivot; a repeated
  pair makes them raise \<open>ValueError\<close>, and so does a table without rows, in the drawing
  call; and the table of any heatmap they return is the pivot.
\<close>

theorem pivot_rows_and_columns:
  assumes "column metric = Some val"
  shows "(distinct (map (\<lambda>r. (Lambda r, K r)) t) \<longrightarrow>
           (\<exists>pt. pivot metric t = Inr pt \<and>
                 distinct (p_index pt) \<and> set (p_index pt) = Lambda ` set t \<and>
                 distinct (p_columns pt) \<and> set (p_columns pt) = K ` set t \<and>
                 length (p_cells pt) = length (p_index pt) \<and>
                 (\<forall>row\<in>set (p_cells pt). length row = length (p_columns pt)) \<and>
                 (\<forall>r\<in>set t. cell pt (Lambda r) (K r) = Some (val r)))) \<and>
         (\<not> distinct (map (\<lambda>r. (Lambda r, K r)) t) \<longrightarrow> pivot metric t = Inl ValueError) \<and>
         (\<forall>p p'. ensure_data w p = Inr (p', t) \<longrightarrow>
            (\<not> distinct (map (\<lambda>r. (Lambda r, K r)) t) \<longrightarrow>
               plot_heatmap w p metric filename = Inl ValueError) \<and>
            (t = [] \<longrightarrow> plot_heatmap w p metric filename = Inl ValueError) \<and>
            (distinct (map (\<lambda>r. (Lambda r, K r)) t) \<and> t \<noteq> [] \<and>
             heatmap_calls w (output_dir @ ''/'' @ filename) = None \<and>
             savefig w (output_dir @ ''/'' @ filename) = None \<longrightarrow>
               (\<exists>h. plot_heatmap w p metric filename = Inr (p', h) \<and>
                    pivot metric t = Inr (h_table h))) \<and>
            (\<forall>q h. plot_heatmap w p metric filename = Inr (q, h) \<longrightarrow>
               pivot metric t = Inr (h_table h))) \<and>
         (read_csv w csv_file = Inr t \<longrightarrow>
            (\<not> distinct (map (\<lambda>r. (Lambda r, K r)) t) \<longrightarrow>
               plot_sensitivity_heatmap w csv_file lang = Inl ValueError) \<and>
            (t = [] \<longrightarrow> plot_sensitivity_heatmap w csv_file lang = Inl ValueError) \<and>
            (distinct (map (\<lambda>r. (Lambda r, K r)) t) \<and> t \<noteq> [] \<and>
             heatmap_calls w (''results/parameter_sensitivity_heatmap_'' @ lang @ ''.png'') = None \<and>
             savefig w (''results/parameter_sensitivity_heatmap_'' @ lang @ ''.png'') = None \<longrightarrow>
               (\<exists>h. plot_sensitivity_heatmap w csv_file lang = Inr h \<and>
                    pivot ''MeanMakespan'' t = Inr (sh_table h))) \<and>
            (\<forall>h. plot_sensitivity_heatmap w csv_file lang = Inr h \<longrightarrow>
               pivot ''MeanMakespan'' t = Inr (sh_table h)))"
proof -
  let ?key = "\<lambda>r. (Lambda r, K r)"
  have dup: "pivot metric t = Inl ValueError" if "\<not> distinct (map ?key t)"
    using that assms by (simp add: pivot_def)
  have dup': "pivot ''MeanMakespan'' t = Inl ValueError" if "\<not> distinct (map ?key t)"
    using that by (simp add: pivot_def column_def)
  have ok: "\<exists>pt. pivot metric t = Inr pt \<and>
                 distinct (p_index pt) \<and> set (p_index pt) = Lambda ` set t \<and>
                 distinct (p_columns pt) \<and> set (p_columns pt) = K ` set t \<and>
                 length (p_cells pt) = length (p_index pt) \<and>
                 (\<forall>row\<in>set (p_cells pt). length row = length (p_columns pt)) \<and>
                 (\<forall>r\<in>set t. cell pt (Lambda r) (K r) = Some (val r))"
    if d: "distinct (map ?key t)"
  proof -
    from pivot_total [OF assms d] obtain pt where pt: "pivot metric t = Inr pt" ..
    note f = pivot_fields [OF assms d pt]
    have shape: "distinct (p_index pt) \<and> set (p_index pt) = Lambda ` set t \<and>
                 distinct (p_columns pt) \<and> set (p_columns pt) = K ` set t \<and>
                 length (p_cells pt) = length (p_index pt) \<and>
                 (\<forall>row\<in>set (p_cells pt). length row = length (p_columns pt))"
      unfolding f by auto
    have "\<forall>r\<in>set t. cell pt (Lambda r) (K r) = Some (val r)"
      using pivot_cell [OF assms d _ pt] by simp
    then have "pivot metric t = Inr pt \<and>
                 distinct (p_index pt) \<and> set (p_index pt) = Lambda ` set t \<and>
                 distinct (p_columns pt) \<and> set (p_columns pt) = K ` set t \<and>
                 length (p_cells pt) = length (p_index pt) \<and>
                 (\<forall>row\<in>set (p_cells pt). length row = length (p_columns pt)) \<and>
                 (\<forall>r\<in>set t. cell pt (Lambda r) (K r) = Some (val r))"
      using pt shape by simp
    then show ?thesis by (rule exI [of _ pt])
  qed
  have A: "distinct (map ?key t) \<longrightarrow>
           (\<exists>pt. pivot metric t = Inr pt \<and>
                 distinct (p_index pt) \<and> set (p_index pt) = Lambda ` set t \<and>
                 distinct (p_columns pt) \<and> set (p_columns pt) = K ` set t \<and>
                 length (p_cells pt) = length (p_index pt) \<and>
                 (\<forall>row\<in>set (p_cells pt). length row = length (p_columns pt)) \<and>
                 (\<forall>r\<in>set t. cell pt (Lambda r) (K r) = Some (val r)))"
    using ok by (rule impI)
  have B: "\<not> distinct (map ?key t) \<longrightarrow> pivot metric t = Inl ValueError"
    using dup by (rule impI)
  have C: "\<forall>p p'. ensure_data w p = Inr (p', t) \<longrightarrow>
            (\<not> distinct (map ?key t) \<longrightarrow> plot_heatmap w p metric filename = Inl ValueError) \<and>
            (t = [] \<longrightarrow> plot_heatmap w p metric filename = Inl ValueError) \<and>
            (distinct (map ?key t) \<and> t \<noteq> [] \<and>
             heatmap_calls w (output_dir @ ''/'' @ filename) = None \<and>
             savefig w (output_dir @ ''/'' @ filename) = None \<longrightarrow>
               (\<exists>h. plot_heatmap w p metric filename = Inr (p', h) \<and>
                    pivot metric t = Inr (h_table h))) \<and>
            (\<forall>q h. plot_heatmap w p metric filename = Inr (q, h) \<longrightarrow>
               pivot metric t = Inr (h_table h))"
  proof (intro allI impI)
    fix p p'
    assume e: "ensure_data w p = Inr (p', t)"
    note T = plot_heatmap_table [OF e, of metric ValueError filename]
    have c1: "\<not> distinct (map ?key t) \<longrightarrow> plot_heatmap w p metric filename = Inl ValueError"
      using T dup by simp
    have c2: "t = [] \<longrightarrow> plot_heatmap w p metric filename = Inl ValueError"
      using plot_heatmap_empty [OF _ assms] e by simp
    have c3: "distinct (map ?key t) \<and> t \<noteq> [] \<and>
             heatmap_calls w (output_dir @ ''/'' @ filename) = None \<and>
             savefig w (output_dir @ ''/'' @ filename) = None \<longrightarrow>
               (\<exists>h. plot_heatmap w p metric filename = Inr (p', h) \<and>
                    pivot metric t = Inr (h_table h))"
      using plot_heatmap_total [OF e assms] by simp
    show "(\<not> distinct (map ?key t) \<longrightarrow> plot_heatmap w p metric filename = Inl ValueError) \<and>
            (t = [] \<longrightarrow> plot_heatmap w p metric filename = Inl ValueError) \<and>
            (distinct (map ?key t) \<and> t \<noteq> [] \<and>
             heatmap_calls w (output_dir @ ''/'' @ filename) = None \<and>
             savefig w (output_dir @ ''/'' @ filename) = None \<longrightarrow>
               (\<exists>h. plot_heatmap w p metric filename = Inr (p', h) \<and>
                    pivot metric t = Inr (h_table h))) \<and>
            (\<forall>q h. plot_heatmap w p metric filename = Inr (q, h) \<longrightarrow>
               pivot metric t = Inr (h_table h))"
      by (rule conjI [OF c1], rule conjI [OF c2], rule conjI [OF c3], rule T [THEN conjunct2])
  qed
  have D: "read_csv w csv_file = Inr t \<longrightarrow>
            (\<not> distinct (map ?key t) \<longrightarrow>
               plot_sensitivity_heatmap w csv_file lang = Inl ValueError) \<and>
            (t = [] \<longrightarrow> plot_sensitivity_heatmap w csv_file lang = Inl ValueError) \<and>
            (distinct (map ?key t) \<and> t \<noteq> [] \<and>
             heatmap_calls w (''results/parameter_sensitivity_heatmap_'' @ lang @ ''.png'') = None \<and>
             savefig w (''results/parameter_sensitivity_heatmap_'' @ lang @ ''.png'') = None \<longrightarrow>
               (\<exists>h. plot_sensitivity_heatmap w csv_file lang = Inr h \<and>
                    pivot ''MeanMakespan'' t = Inr (sh_table h))) \<and>
            (\<forall>h. plot_sensitivity_heatmap w csv_file lang = Inr h \<longrightarrow>
               pivot ''MeanMakespan'' t = Inr (sh_table h))"
  proof (intro impI)
    assume e: "read_csv w csv_file = Inr t"
    note T = plot_sensitivity_heatmap_table [OF e, of ValueError lang]
    have c1: "\<not> distinct (map ?key t) \<longrightarrow> plot_sensitivity_heatmap w csv_file lang = Inl ValueError"
      using T dup' by simp
    have c2: "t = [] \<longrightarrow> plot_sensitivity_heatmap w csv_file lang = Inl ValueError"
      using plot_sensitivity_heatmap_empty e by simp
    have c3: "distinct (map ?key t) \<and> t \<noteq> [] \<and>
             heatmap_calls w (''results/parameter_sensitivity_heatmap_'' @ lang @ ''.png'') = None \<and>
             savefig w (''results/parameter_sensitivity_heatmap_'' @ lang @ ''.png'') = None \<longrightarrow>
               (\<exists>h. plot_sensitivity_heatmap w csv_file lang = Inr h \<and>
                    pivot ''MeanMakespan'' t = Inr (sh_table h))"
      using plot_sensitivity_heatmap_total [OF e] by simp
    show "(\<not> distinct (map ?key t) \<longrightarrow>
               plot_sensitivity_heatmap w csv_file lang = Inl ValueError) \<and>
            (t = [] \<longrightarrow> plot_sensitivity_heatmap w csv_file lang = Inl ValueError) \<and>
            (distinct (map ?key t) \<and> t \<noteq> [] \<and>
             heatmap_calls w (''results/parameter_sensitivity_heatmap_'' @ lang @ ''.png'') = None \<and>
             savefig w (''results/parameter_sensitivity_heatmap_'' @ lang @ ''.png'') = None \<longrightarrow>
               (\<exists>h. plot_sensitivity_heatmap w csv_file lang = Inr h \<and>
                    pivot ''MeanMakespan'' t = Inr (sh_table h))) \<and>
            (\<forall>h. plot_sensitivity_heatmap w csv_file lang = Inr h \<longrightarrow>
               pivot ''MeanMakespan'' t = Inr (sh_table h))"
      by (rule conjI [OF c1], rule conjI [OF c2], rule conjI [OF c3], rule T [THEN conjunct2])
  qed
  show ?thesis
    by (rule conjI [OF A], rule conjI [OF B], rule conjI [OF C], rule D)
qed

theorem pivot_rows_and_columns_witness:
  "(\<exists>h. plot_heatmap example_world \<lparr>data_file = ''sensitivity_results_2.csv'', data = Some example_table\<rparr>
          ''MeanMakespan'' ''sensitivity_heatmap_mean.png'' =
            Inr (\<lparr>data_file = ''sensitivity_results_2.csv'', data = Some example_table\<rparr>, h) \<and>
        set (p_index (h_table h)) = {float_0_4} \<and> set (p_columns (h_table h)) = {2, 3} \<and>
        cell (h_table h) float_0_4 2 = Some 520 \<and> cell (h_table h) float_0_4 3 = Some 500) \<and>
   (\<exists>h. plot_sensitivity_heatmap example_world ''results/sensitivity_results_20251210_223839.csv'' ''en'' =
            Inr h \<and>
        cell (sh_table h) float_0_4 3 = Some 500) \<and>
   plot_heatmap dup_world \<lparr>data_file = ''sensitivity_results_2.csv'', data = Some dup_table\<rparr>
       ''MeanMakespan'' ''sensitivity_heatmap_mean.png'' = Inl ValueError"
proof -
  let ?p = "\<lparr>data_file = ''sensitivity_results_2.csv'', data = Some example_table\<rparr>"
  let ?q = "\<lparr>data_file = ''sensitivity_results_2.csv'', data = Some dup_table\<rparr>"
  have d: "distinct (map (\<lambda>r. (Lambda r, K r)) example_table)" by (simp add: example_table_def)
  have n: "\<not> distinct (map (\<lambda>r. (Lambda r, K r)) dup_table)"
    by (simp add: dup_table_def example_table_def)
  have ne: "example_table \<noteq> []" by (simp add: example_table_def)
  have e1: "ensure_data example_world ?p = Inr (?p, example_table)" by (simp add: ensure_data_def)
  have e2: "ensure_data dup_world ?q = Inr (?q, dup_table)" by (simp add: ensure_data_def)
  have r: "read_csv example_world ''results/sensitivity_results_20251210_223839.csv'' = Inr example_table"
    by (simp add: example_world_def)
  have ok: "heatmap_calls example_world f = None" "savefig example_world f = None" for f
    by (simp_all add: example_world_def)
  note T = pivot_rows_and_columns [OF column_mean, of example_table example_world
      "''sensitivity_heatmap_mean.png''" "''results/sensitivity_results_20251210_223839.csv''" "''en''"]
  from T [THEN conjunct1, THEN mp, OF d] obtain pt where pt:
      "pivot ''MeanMakespan'' example_table = Inr pt"
      "set (p_index pt) = Lambda ` set example_table" "set (p_columns pt) = K ` set example_table"
      "\<forall>r\<in>set example_table. cell pt (Lambda r) (K r) = Some (MeanMakespan r)"
    by (elim exE conjE)
  have cells: "set (p_index pt) = {float_0_4} \<and> set (p_columns pt) = {2, 3} \<and>
        cell pt float_0_4 2 = Some 520 \<and> cell pt float_0_4 3 = Some 500"
    using pt(2,3,4) by (auto simp: example_table_def)
  have C: "(distinct (map (\<lambda>r. (Lambda r, K r)) example_table) \<and> example_table \<noteq> [] \<and>
             heatmap_calls example_world (output_dir @ ''/'' @ ''sensitivity_heatmap_mean.png'') = None \<and>
             savefig example_world (output_dir @ ''/'' @ ''sensitivity_heatmap_mean.png'') = None \<longrightarrow>
               (\<exists>h. plot_heatmap example_world ?p ''MeanMakespan'' ''sensitivity_heatmap_mean.png'' = Inr (?p, h) \<and>
                    pivot ''MeanMakespan'' example_table = Inr (h_table h)))"
    using T [THEN conjunct2, THEN conjunct2, THEN conjunct1, THEN spec, THEN spec, THEN mp, OF e1]
    by simp
  from C d ne ok obtain h where h:
      "plot_heatmap example_world ?p ''MeanMakespan'' ''sensitivity_heatmap_mean.png'' = Inr (?p, h)"
      "pivot ''MeanMakespan'' example_table = Inr (h_table h)"
    by auto
  have "h_table h = pt" using h(2) pt(1) by simp
  then have first: "\<exists>h. plot_heatmap example_world ?p ''MeanMakespan'' ''sensitivity_heatmap_mean.png'' =
            Inr (?p, h) \<and>
        set (p_index (h_table h)) = {float_0_4} \<and> set (p_columns (h_table h)) = {2, 3} \<and>
        cell (h_table h) float_0_4 2 = Some 520 \<and> cell (h_table h) float_0_4 3 = Some 500"
    using h(1) cells by (intro exI [of _ h]) simp
  have D: "(distinct (map (\<lambda>r. (Lambda r, K r)) example_table) \<and> example_table \<noteq> [] \<and>
             heatmap_calls example_world (''results/parameter_sensitivity_heatmap_'' @ ''en'' @ ''.png'') = None \<and>
             savefig example_world (''results/parameter_sensitivity_heatmap_'' @ ''en'' @ ''.png'') = None \<longrightarrow>
               (\<exists>h. plot_sensitivity_heatmap example_world
                      ''results/sensitivity_results_20251210_223839.csv'' ''en'' = Inr h \<and>
                    pivot ''MeanMakespan'' example_table = Inr (sh_table h)))"
    using T [THEN conjunct2, THEN conjunct2, THEN conjunct2, THEN mp, OF r] by simp
  from D d ne ok obtain g where g:
      "plot_sensitivity_heatmap example_world ''results/sensitivity_results_20251210_223839.csv'' ''en'' = Inr g"
      "pivot ''MeanMakespan'' example_table = Inr (sh_table g)"
    by auto
  have "sh_table g = pt" using g(2) pt(1) by simp
  then have second: "\<exists>h. plot_sensitivity_heatmap example_world
        ''results/sensitivity_results_20251210_223839.csv'' ''en'' = Inr h \<and>
        cell (sh_table h) float_0_4 3 = Some 500"
    using g(1) cells by (intro exI [of _ g]) simp
  note U = pivot_rows_and_columns [OF column_mean, of dup_table dup_world
      "''sensitivity_heatmap_mean.png''" "''x''" "''en''"]
  have third: "plot_heatmap dup_world ?q ''MeanMakespan'' ''sensitivity_heatmap_mean.png'' = Inl ValueError"
    using U [THEN conjunct2, THEN conjunct2, THEN conjunct1, THEN spec, THEN spec, THEN mp, OF e2] n
    by simp
  show ?thesis using first second third by simp
qed

end
